theory Spec2Isabelle
  imports Complex_Main "HOL-Library.Word"
begin

section \<open>Errors raised by the checks\<close>

text \<open>
  The checking macros of the source throw exceptions of different classes:
  \<^verbatim>\<open>TORCH_CHECK\<close> throws the generic \<^verbatim>\<open>c10::Error\<close> with the message it was
  given, \<^verbatim>\<open>TORCH_CHECK_INDEX\<close> throws \<^verbatim>\<open>c10::IndexError\<close>. Every throw of
  the modelled functions is a value \<open>Inl e\<close>; \<open>IndexError bi n\<close> stands for the
  message "Batch index bi is out of range for grid batch of size n". A failing
  \<^verbatim>\<open>assert\<close> and a read through a pointer that holds no object stop the
  process: \<open>Abort\<close>.
\<close>

datatype error = Error string | IndexError int int | Abort string

text \<open>
  The error kinds as the specification words them: an index error is the class thrown
  by the range check, the invalid-argument class is the generic check failure.
\<close>

fun spec_index_error :: "error \<Rightarrow> bool" where
  "spec_index_error (IndexError bi n) = True"
| "spec_index_error (Error msg) = False"
| "spec_index_error (Abort msg) = False"

fun spec_invalid_argument_error :: "error \<Rightarrow> bool" where
  "spec_invalid_argument_error (Error msg) = True"
| "spec_invalid_argument_error (IndexError bi n) = False"
| "spec_invalid_argument_error (Abort msg) = False"

section \<open>Machine integers, coordinates and boxes\<close>

type_synonym int32 = "32 word"
type_synonym uint32 = "32 word"
type_synonym int64 = "64 word"
type_synonym uint64 = "64 word"

text \<open>
  \<^verbatim>\<open>nanovdb::Coord\<close> holds three \<^verbatim>\<open>int32_t\<close>, \<^verbatim>\<open>nanovdb::Vec3d\<close> three
  doubles. The doubles are read as real numbers: rounding is not modelled.
\<close>

type_synonym Coord = "int32 \<times> int32 \<times> int32"
type_synonym Vec3d = "real \<times> real \<times> real"

definition Coord_plus :: "Coord \<Rightarrow> Coord \<Rightarrow> Coord" where
  "Coord_plus a b =
     (case a of (a0, a1, a2) \<Rightarrow> case b of (b0, b1, b2) \<Rightarrow> (a0 + b0, a1 + b1, a2 + b2))"

definition minComponent :: "Coord \<Rightarrow> Coord \<Rightarrow> Coord" where
  "minComponent a b =
     (case a of (a0, a1, a2) \<Rightarrow> case b of (b0, b1, b2) \<Rightarrow>
        (if sint b0 < sint a0 then b0 else a0,
         if sint b1 < sint a1 then b1 else a1,
         if sint b2 < sint a2 then b2 else a2))"

definition maxComponent :: "Coord \<Rightarrow> Coord \<Rightarrow> Coord" where
  "maxComponent a b =
     (case a of (a0, a1, a2) \<Rightarrow> case b of (b0, b1, b2) \<Rightarrow>
        (if sint a0 < sint b0 then b0 else a0,
         if sint a1 < sint b1 then b1 else a1,
         if sint a2 < sint b2 then b2 else a2))"

text \<open>
  \<^verbatim>\<open>nanovdb::CoordBBox\<close>: \<open>mCoord0\<close> is \<^verbatim>\<open>mCoord[0]\<close>, the minimum corner,
  \<open>mCoord1\<close> is \<^verbatim>\<open>mCoord[1]\<close>, the maximum corner. The default box is the empty
  one, from the largest coordinate to the smallest; \<open>expand\<close> is the union with
  another box.
\<close>

record CoordBBox =
  mCoord0 :: Coord
  mCoord1 :: Coord

definition CoordBBox_default :: CoordBBox where
  "CoordBBox_default =
     \<lparr>mCoord0 = (2147483647, 2147483647, 2147483647),
      mCoord1 = (- 2147483648, - 2147483648, - 2147483648)\<rparr>"

definition expand :: "CoordBBox \<Rightarrow> CoordBBox \<Rightarrow> CoordBBox" where
  "expand t b =
     \<lparr>mCoord0 = minComponent (mCoord0 t) (mCoord0 b),
      mCoord1 = maxComponent (mCoord1 t) (mCoord1 b)\<rparr>"

section \<open>Devices and the device buffer\<close>

text \<open>
  A \<^verbatim>\<open>torch::Device\<close> is a device type and an index, \<open>- 1\<close> when no index is
  given. \<open>kOther\<close> stands for every device type that is neither the host nor CUDA.
\<close>

datatype DeviceType = kCPU | kCUDA | kOther

datatype Device = Device DeviceType int

fun is_cpu :: "Device \<Rightarrow> bool" where
  "is_cpu (Device t i) = (t = kCPU)"

fun is_cuda :: "Device \<Rightarrow> bool" where
  "is_cuda (Device t i) = (t = kCUDA)"

fun has_index :: "Device \<Rightarrow> bool" where
  "has_index (Device t i) = (i \<noteq> - 1)"

text \<open>
  \<^verbatim>\<open>TorchDeviceBuffer\<close>: the size in bytes, the host pointer, the accelerator
  pointer and the device. A pointer is \<open>None\<close> when it is \<^verbatim>\<open>nullptr\<close> and
  \<open>Some bytes\<close> when it points to a region holding those bytes. Releasing a
  region is not recorded: the model keeps the fields of the object only.
\<close>

type_synonym bytes = "8 word list"

record TorchDeviceBuffer =
  mSize :: uint64
  mCpuData :: "bytes option"
  mGpuData :: "bytes option"
  mDevice :: Device

definition clear :: "TorchDeviceBuffer \<Rightarrow> TorchDeviceBuffer" where
  "clear b = b\<lparr>mCpuData := None, mGpuData := None, mSize := 0\<rparr>"

text \<open>
  \<open>init\<close>: \<open>data\<close> is the region the caller hands over (\<open>None\<close> for
  \<^verbatim>\<open>nullptr\<close>), \<open>fresh\<close> the content of a newly allocated region, which the
  allocation leaves unspecified. The test \<^verbatim>\<open>mSize >= 0\<close> on an unsigned size
  always holds, so the old regions are always released.
\<close>

definition init ::
  "bytes \<Rightarrow> uint64 \<Rightarrow> bytes option \<Rightarrow> bool \<Rightarrow> TorchDeviceBuffer \<Rightarrow> error + TorchDeviceBuffer"
where
  "init fresh sz data host b =
     (if \<not> ((host \<and> is_cpu (mDevice b)) \<or> (\<not> host \<and> is_cuda (mDevice b)))
      then Inl (Error ''Invalid device for host argument to TorchDeviceBuffer::init'')
      else if sz = mSize b then Inr b
      else let b1 = clear b in
        if sz = 0 then Inr b1
        else let b2 = b1\<lparr>mSize := sz\<rparr> in
          if host
          then Inr (b2\<lparr>mCpuData := Some (case data of Some d \<Rightarrow> d | None \<Rightarrow> fresh)\<rparr>)
          else Inr (b2\<lparr>mGpuData := Some (case data of Some d \<Rightarrow> d | None \<Rightarrow> fresh)\<rparr>))"

text \<open>The constructor \<^verbatim>\<open>TorchDeviceBuffer(size, data, host, deviceIndex)\<close>.\<close>

definition TorchDeviceBuffer_new ::
  "bytes \<Rightarrow> uint64 \<Rightarrow> bytes option \<Rightarrow> bool \<Rightarrow> int \<Rightarrow> error + TorchDeviceBuffer"
where
  "TorchDeviceBuffer_new fresh sz data host deviceIndex =
     (let b = \<lparr>mSize = 0, mCpuData = None, mGpuData = None,
                mDevice = Device (if host then kCPU else kCUDA) deviceIndex\<rparr>
      in if \<not> (host \<or> (\<not> host \<and> deviceIndex \<ge> 0))
         then Inl (Error ''You must set deviceIndex when setting host to false'')
         else init fresh sz data host b)"

text \<open>
  \<open>copyDeviceToHostAndFreeDevice\<close> and \<open>copyHostToDeviceAndFreeHost\<close>: the copy
  moves \<open>mSize\<close> bytes into the target region, which is allocated with that
  size when its pointer is null. The first releases the accelerator region without
  clearing the pointer, the second clears the host pointer. Whether the call blocks
  changes no field.
\<close>

definition copyDeviceToHostAndFreeDevice ::
  "bool \<Rightarrow> TorchDeviceBuffer \<Rightarrow> error + TorchDeviceBuffer"
where
  "copyDeviceToHostAndFreeDevice blocking b =
     (case mGpuData b of
        None \<Rightarrow> Inl (Error ''uninitialized cpu data, this should never happen'')
      | Some g \<Rightarrow>
          Inr (b\<lparr>mCpuData :=
                   Some (take (unat (mSize b)) g @
                         (case mCpuData b of None \<Rightarrow> [] | Some c \<Rightarrow> drop (unat (mSize b)) c))\<rparr>))"

definition copyHostToDeviceAndFreeHost ::
  "bool \<Rightarrow> TorchDeviceBuffer \<Rightarrow> error + TorchDeviceBuffer"
where
  "copyHostToDeviceAndFreeHost blocking b =
     (case mCpuData b of
        None \<Rightarrow> Inl (Error ''uninitialized cpu data, this should never happen'')
      | Some c \<Rightarrow>
          Inr (b\<lparr>mGpuData :=
                   Some (take (unat (mSize b)) c @
                         (case mGpuData b of None \<Rightarrow> [] | Some g \<Rightarrow> drop (unat (mSize b)) g)),
                 mCpuData := None\<rparr>))"

definition toCpu :: "bool \<Rightarrow> TorchDeviceBuffer \<Rightarrow> error + TorchDeviceBuffer" where
  "toCpu blocking b =
     (if mGpuData b = None \<and> mCpuData b = None
      then Inr (b\<lparr>mDevice := Device kCPU (- 1)\<rparr>)
      else case (if is_cuda (mDevice b) then copyDeviceToHostAndFreeDevice blocking b
                 else Inr b) of
             Inl e \<Rightarrow> Inl e
           | Inr b1 \<Rightarrow> Inr (b1\<lparr>mGpuData := None, mDevice := Device kCPU (- 1)\<rparr>))"

definition toCuda :: "Device \<Rightarrow> bool \<Rightarrow> TorchDeviceBuffer \<Rightarrow> error + TorchDeviceBuffer" where
  "toCuda toDevice blocking b =
     (if \<not> is_cuda toDevice then Inl (Error ''Invalid device must be a CUDA device'')
      else if \<not> has_index toDevice
      then Inl (Error ''Invalid device must specify device index'')
      else if mGpuData b = None \<and> mCpuData b = None then Inr (b\<lparr>mDevice := toDevice\<rparr>)
      else if toDevice = mDevice b then Inr b
      else if is_cuda (mDevice b) \<and> toDevice \<noteq> mDevice b
      then Inr (b\<lparr>mGpuData := Some (take (unat (mSize b)) (case mGpuData b of Some g \<Rightarrow> g | None \<Rightarrow> [])),
                  mDevice := toDevice\<rparr>)
      else if is_cpu (mDevice b)
      then (case copyHostToDeviceAndFreeHost blocking b of
              Inl e \<Rightarrow> Inl e
            | Inr b1 \<Rightarrow> Inr (b1\<lparr>mDevice := toDevice\<rparr>))
      else Inl (Error ''This should never happen. File a bug.''))"

text \<open>
  \<open>setDevice\<close>. Every check of the call chain runs before the first assignment,
  so a failing call leaves the buffer as it was: \<open>Inl e\<close> carries no buffer.
\<close>

definition setDevice :: "Device \<Rightarrow> bool \<Rightarrow> TorchDeviceBuffer \<Rightarrow> error + TorchDeviceBuffer" where
  "setDevice toDevice blocking b =
     (if toDevice = mDevice b then Inr b
      else if mCpuData b = None \<and> mGpuData b = None
      then (if is_cuda toDevice \<and> \<not> has_index toDevice
            then Inl (Error ''Invalid CUDA device must specify device index'')
            else Inr (b\<lparr>mDevice := toDevice\<rparr>))
      else if is_cpu toDevice then toCpu blocking b
      else if is_cuda toDevice then toCuda toDevice blocking b
      else Inl (Error ''Only CPU and CUDA devices are supported''))"

text \<open>
  Modelled from the spec: \<^verbatim>\<open>TorchDeviceBuffer::isEmpty\<close> is declared in
  \<^verbatim>\<open>TorchDeviceBuffer.h\<close>, which is not among the sources; the specification
  calls a buffer empty when it is zero-sized.
\<close>

definition buffer_isEmpty :: "TorchDeviceBuffer \<Rightarrow> bool" where
  "buffer_isEmpty b = (mSize b = 0)"

section \<open>Voxel sizes, origins and transforms\<close>


definition Vec3d_plus :: "Vec3d \<Rightarrow> Vec3d \<Rightarrow> Vec3d" where
  "Vec3d_plus a b =
     (case a of (a0, a1, a2) \<Rightarrow> case b of (b0, b1, b2) \<Rightarrow> (a0 + b0, a1 + b1, a2 + b2))"

definition Vec3d_minus :: "Vec3d \<Rightarrow> Vec3d \<Rightarrow> Vec3d" where
  "Vec3d_minus a b =
     (case a of (a0, a1, a2) \<Rightarrow> case b of (b0, b1, b2) \<Rightarrow> (a0 - b0, a1 - b1, a2 - b2))"

definition Vec3d_times :: "Vec3d \<Rightarrow> Vec3d \<Rightarrow> Vec3d" where
  "Vec3d_times a b =
     (case a of (a0, a1, a2) \<Rightarrow> case b of (b0, b1, b2) \<Rightarrow> (a0 * b0, a1 * b1, a2 * b2))"

definition Vec3d_divide :: "Vec3d \<Rightarrow> Vec3d \<Rightarrow> Vec3d" where
  "Vec3d_divide a b =
     (case a of (a0, a1, a2) \<Rightarrow> case b of (b0, b1, b2) \<Rightarrow> (a0 / b0, a1 / b1, a2 / b2))"


text \<open>
  Modelled from the spec: \<^verbatim>\<open>VoxelCoordTransform\<close> and
  \<^verbatim>\<open>voxelTransformForSizeAndOrigin\<close> are declared in
  \<^verbatim>\<open>VoxelCoordTransform.h\<close>, which is not among the sources. The specification
  describes a forward scale and translate transform with its algebraic inverse, derived
  from a voxel size and a world origin, the dual differing from the primal by a half
  voxel offset.
\<close>

record VoxelCoordTransform =
  mScale :: Vec3d
  mTranslate :: Vec3d

definition apply_xf :: "VoxelCoordTransform \<Rightarrow> Vec3d \<Rightarrow> Vec3d" where
  "apply_xf t x = Vec3d_plus (Vec3d_times x (mScale t)) (mTranslate t)"

definition applyInv :: "VoxelCoordTransform \<Rightarrow> Vec3d \<Rightarrow> Vec3d" where
  "applyInv t x = Vec3d_divide (Vec3d_minus x (mTranslate t)) (mScale t)"

definition voxelTransformForSizeAndOrigin ::
  "Vec3d \<Rightarrow> Vec3d \<Rightarrow> VoxelCoordTransform \<times> VoxelCoordTransform"
where
  "voxelTransformForSizeAndOrigin voxSize voxOrigin =
     (let invW = Vec3d_divide (1, 1, 1) voxSize;
          t = Vec3d_minus (0, 0, 0) (Vec3d_divide voxOrigin voxSize)
      in (\<lparr>mScale = invW, mTranslate = t\<rparr>,
          \<lparr>mScale = invW, mTranslate = Vec3d_plus t (1 / 2, 1 / 2, 1 / 2)\<rparr>))"

section \<open>Metadata of a grid and of the batch\<close>

record NanoGrid =
  tree_bbox :: CoordBBox

record GridMetadata =
  version :: uint32
  mCumLeaves :: int64
  mCumVoxels :: int64
  mCumBytes :: uint64
  mPrimalTransform :: VoxelCoordTransform
  mDualTransform :: VoxelCoordTransform
  mVoxelSize :: Vec3d
  mNumLeaves :: uint32
  mNumVoxels :: int64
  mNumBytes :: uint64
  mBBox :: CoordBBox

definition meta_voxelOrigin :: "GridMetadata \<Rightarrow> Vec3d" where
  "meta_voxelOrigin m = applyInv (mPrimalTransform m) (0, 0, 0)"

definition setTransform :: "Vec3d \<Rightarrow> Vec3d \<Rightarrow> GridMetadata \<Rightarrow> GridMetadata" where
  "setTransform voxSize voxOrigin m =
     (case voxelTransformForSizeAndOrigin voxSize voxOrigin of
        (p, d) \<Rightarrow> m\<lparr>mVoxelSize := voxSize, mPrimalTransform := p, mDualTransform := d\<rparr>)"

text \<open>
  The accessor: a view of the batch for the kernels. \<open>mMetadata\<close> and
  \<open>mGridPtr\<close> are pointers, \<open>None\<close> for \<^verbatim>\<open>nullptr\<close>.
\<close>

record Accessor =
  mMetadata :: "GridMetadata list option"
  mGridPtr :: "(uint64 \<Rightarrow> NanoGrid option) option"
  mLeafBatchIndices :: "int list"
  mTotalVoxels :: int64
  mTotalLeaves :: int64
  mMaxVoxels :: int64
  mMaxLeafCount :: uint32
  mGridCount :: int

record GridBatchMetadata =
  version :: uint32
  mTotalLeaves :: int64
  mTotalVoxels :: int64
  mMaxVoxels :: int64
  mMaxLeafCount :: uint32
  mTotalBBox :: CoordBBox
  mIsMutable :: bool
  mIsContiguous :: bool

text \<open>The default member initialisers of \<^verbatim>\<open>GridBatchMetadata\<close>.\<close>

definition GridBatchMetadata_default :: GridBatchMetadata where
  "GridBatchMetadata_default =
     \<lparr>version = 1, mTotalLeaves = 0, mTotalVoxels = 0, mMaxVoxels = 0, mMaxLeafCount = 0,
      mTotalBBox = CoordBBox_default, mIsMutable = False, mIsContiguous = True\<rparr>"

section \<open>The grid handle and the grid batch\<close>

text \<open>
  The storage of a batch holds one grid per element, each at its byte offset. Of a grid
  only the bounding box of its tree is read here. \<open>grid\<close> and \<open>deviceGrid\<close> are what
  the handle's typed accessors \<^verbatim>\<open>grid<GridType>()\<close> and
  \<^verbatim>\<open>deviceGrid<GridType>()\<close> return: \<open>None\<close> for \<^verbatim>\<open>nullptr\<close>, otherwise the
  grids found from that pointer, by byte offset.
\<close>

type_synonym grid_mem = "uint64 \<Rightarrow> NanoGrid option"

record GridHandle =
  buffer :: TorchDeviceBuffer
  grid :: "grid_mem option"
  deviceGrid :: "grid_mem option"

text \<open>
  The tensors are lists: \<open>mLeafBatchIndices\<close> one batch index per leaf,
  \<open>mBatchOffsets\<close> the voxel offsets, \<open>mListIndices\<close> one row per entry.
  \<open>mDeviceGridMetadata\<close> is the pointer to the accelerator copy of the metadata,
  \<open>None\<close> for \<^verbatim>\<open>nullptr\<close>.
\<close>

record GridBatchImpl =
  mHostGridMetadata :: "GridMetadata list"
  mDeviceGridMetadata :: "GridMetadata list option"
  mBatchMetadata :: GridBatchMetadata
  mGridHdl :: GridHandle
  mLeafBatchIndices :: "int list"
  mBatchOffsets :: "int64 list"
  mListIndices :: "int list list"

definition batchSize :: "GridBatchImpl \<Rightarrow> int" where
  "batchSize B = int (length (mHostGridMetadata B))"

definition totalLeaves :: "GridBatchImpl \<Rightarrow> int64" where
  "totalLeaves B = mTotalLeaves (mBatchMetadata B)"

definition totalVoxels :: "GridBatchImpl \<Rightarrow> int64" where
  "totalVoxels B = mTotalVoxels (mBatchMetadata B)"

definition isMutable :: "GridBatchImpl \<Rightarrow> bool" where
  "isMutable B = mIsMutable (mBatchMetadata B)"

definition isContiguous :: "GridBatchImpl \<Rightarrow> bool" where
  "isContiguous B = mIsContiguous (mBatchMetadata B)"

definition device :: "GridBatchImpl \<Rightarrow> Device" where
  "device B = mDevice (buffer (mGridHdl B))"

definition isEmpty :: "GridBatchImpl \<Rightarrow> bool" where
  "isEmpty B = buffer_isEmpty (buffer (mGridHdl B))"

definition totalBBox :: "GridBatchImpl \<Rightarrow> CoordBBox" where
  "totalBBox B = mTotalBBox (mBatchMetadata B)"

definition checkNonEmptyGrid :: "GridBatchImpl \<Rightarrow> error + unit" where
  "checkNonEmptyGrid B = (if \<not> isEmpty B then Inr () else Inl (Error ''Empty grid''))"

text \<open>
  The batch index is an \<^verbatim>\<open>int64_t\<close>; adding the batch size to a negative index
  cannot overflow, so indices are integers.
\<close>

definition negativeToPositiveIndexWithRangecheck :: "GridBatchImpl \<Rightarrow> int \<Rightarrow> error + int" where
  "negativeToPositiveIndexWithRangecheck B bi =
     (let bi1 = (if bi < 0 then bi + batchSize B else bi)
      in if bi1 \<ge> 0 \<and> bi1 < batchSize B then Inr bi1
         else Inl (IndexError bi1 (batchSize B)))"

subsection \<open>Queries on one element of the batch\<close>

definition numLeaves :: "GridBatchImpl \<Rightarrow> int \<Rightarrow> error + uint32" where
  "numLeaves B bi =
     (case negativeToPositiveIndexWithRangecheck B bi of
        Inl e \<Rightarrow> Inl e
      | Inr i \<Rightarrow> Inr (mNumLeaves (mHostGridMetadata B ! nat i)))"

definition numVoxels :: "GridBatchImpl \<Rightarrow> int \<Rightarrow> error + int64" where
  "numVoxels B bi =
     (case negativeToPositiveIndexWithRangecheck B bi of
        Inl e \<Rightarrow> Inl e
      | Inr i \<Rightarrow> Inr (mNumVoxels (mHostGridMetadata B ! nat i)))"

definition cumVoxels :: "GridBatchImpl \<Rightarrow> int \<Rightarrow> error + int64" where
  "cumVoxels B bi =
     (case negativeToPositiveIndexWithRangecheck B bi of
        Inl e \<Rightarrow> Inl e
      | Inr i \<Rightarrow> Inr (mCumVoxels (mHostGridMetadata B ! nat i)))"

definition numBytes :: "GridBatchImpl \<Rightarrow> int \<Rightarrow> error + uint64" where
  "numBytes B bi =
     (case negativeToPositiveIndexWithRangecheck B bi of
        Inl e \<Rightarrow> Inl e
      | Inr i \<Rightarrow> Inr (mNumBytes (mHostGridMetadata B ! nat i)))"

definition cumBytes :: "GridBatchImpl \<Rightarrow> int \<Rightarrow> error + uint64" where
  "cumBytes B bi =
     (case negativeToPositiveIndexWithRangecheck B bi of
        Inl e \<Rightarrow> Inl e
      | Inr i \<Rightarrow> Inr (mCumBytes (mHostGridMetadata B ! nat i)))"

definition primalTransform :: "GridBatchImpl \<Rightarrow> int \<Rightarrow> error + VoxelCoordTransform" where
  "primalTransform B bi =
     (case negativeToPositiveIndexWithRangecheck B bi of
        Inl e \<Rightarrow> Inl e
      | Inr i \<Rightarrow> Inr (mPrimalTransform (mHostGridMetadata B ! nat i)))"

definition dualTransform :: "GridBatchImpl \<Rightarrow> int \<Rightarrow> error + VoxelCoordTransform" where
  "dualTransform B bi =
     (case negativeToPositiveIndexWithRangecheck B bi of
        Inl e \<Rightarrow> Inl e
      | Inr i \<Rightarrow> Inr (mDualTransform (mHostGridMetadata B ! nat i)))"

definition bbox :: "GridBatchImpl \<Rightarrow> int \<Rightarrow> error + CoordBBox" where
  "bbox B bi =
     (case checkNonEmptyGrid B of
        Inl e \<Rightarrow> Inl e
      | Inr u \<Rightarrow>
          (case negativeToPositiveIndexWithRangecheck B bi of
             Inl e \<Rightarrow> Inl e
           | Inr i \<Rightarrow> Inr (mBBox (mHostGridMetadata B ! nat i))))"

definition dualBbox :: "GridBatchImpl \<Rightarrow> int \<Rightarrow> error + CoordBBox" where
  "dualBbox B bi =
     (case negativeToPositiveIndexWithRangecheck B bi of
        Inl e \<Rightarrow> Inl e
      | Inr i \<Rightarrow>
          (case bbox B i of
             Inl e \<Rightarrow> Inl e
           | Inr db \<Rightarrow> Inr (db\<lparr>mCoord1 := Coord_plus (mCoord1 db) (1, 1, 1)\<rparr>)))"

definition voxelSize :: "GridBatchImpl \<Rightarrow> int \<Rightarrow> error + Vec3d" where
  "voxelSize B bi =
     (case negativeToPositiveIndexWithRangecheck B bi of
        Inl e \<Rightarrow> Inl e
      | Inr i \<Rightarrow> Inr (mVoxelSize (mHostGridMetadata B ! nat i)))"

definition voxelOrigin :: "GridBatchImpl \<Rightarrow> int \<Rightarrow> error + Vec3d" where
  "voxelOrigin B bi =
     (case negativeToPositiveIndexWithRangecheck B bi of
        Inl e \<Rightarrow> Inl e
      | Inr i \<Rightarrow> Inr (meta_voxelOrigin (mHostGridMetadata B ! nat i)))"

subsection \<open>Transforms of a finer and of a coarser grid\<close>



subsection \<open>Accessors\<close>

definition hostAccessor :: "GridBatchImpl \<Rightarrow> error + Accessor" where
  "hostAccessor B =
     (if isEmpty B then Inl (Error ''Cannot access empty grid'')
      else case grid (mGridHdl B) of
             None \<Rightarrow> Inl (Error ''Failed to get host grid pointer'')
           | Some g \<Rightarrow>
               Inr \<lparr>mMetadata = Some (mHostGridMetadata B),
                    mGridPtr = Some g,
                    mLeafBatchIndices = mLeafBatchIndices B,
                    mTotalVoxels = mTotalVoxels (mBatchMetadata B),
                    mTotalLeaves = mTotalLeaves (mBatchMetadata B),
                    mMaxVoxels = mMaxVoxels (mBatchMetadata B),
                    mMaxLeafCount = mMaxLeafCount (mBatchMetadata B),
                    mGridCount = int (length (mHostGridMetadata B))\<rparr>)"


text \<open>
  The methods of the accessor. Its range check is an \<^verbatim>\<open>assert\<close>. Reading the
  metadata array or the grid through a null pointer or past the objects it holds has
  no defined result; the model stops there as well.
\<close>

definition Accessor_batchSize :: "Accessor \<Rightarrow> int" where
  "Accessor_batchSize A = mGridCount A"

definition Accessor_negativeToPositiveIndexWithRangecheck :: "Accessor \<Rightarrow> int \<Rightarrow> error + int" where
  "Accessor_negativeToPositiveIndexWithRangecheck A bi =
     (let bi1 = (if bi < 0 then bi + Accessor_batchSize A else bi)
      in if bi1 \<ge> 0 \<and> bi1 < Accessor_batchSize A then Inr bi1
         else Inl (Abort ''bi >= 0 && bi < batchSize()''))"

definition Accessor_metadata :: "Accessor \<Rightarrow> int \<Rightarrow> error + GridMetadata" where
  "Accessor_metadata A i =
     (case mMetadata A of
        None \<Rightarrow> Inl (Abort ''read through a null metadata pointer'')
      | Some ms \<Rightarrow>
          if 0 \<le> i \<and> nat i < length ms then Inr (ms ! nat i)
          else Inl (Abort ''read past the metadata array''))"

definition Accessor_grid :: "Accessor \<Rightarrow> int \<Rightarrow> error + NanoGrid" where
  "Accessor_grid A bi =
     (case Accessor_negativeToPositiveIndexWithRangecheck A bi of
        Inl e \<Rightarrow> Inl e
      | Inr i \<Rightarrow>
          (case Accessor_metadata A i of
             Inl e \<Rightarrow> Inl e
           | Inr m \<Rightarrow>
               (case mGridPtr A of
                  None \<Rightarrow> Inl (Abort ''read through a null grid pointer'')
                | Some g \<Rightarrow>
                    (case g (mCumBytes m) of
                       None \<Rightarrow> Inl (Abort ''no grid at this byte offset'')
                     | Some gr \<Rightarrow> Inr gr))))"

definition Accessor_bbox :: "Accessor \<Rightarrow> int \<Rightarrow> error + CoordBBox" where
  "Accessor_bbox A bi =
     (case Accessor_negativeToPositiveIndexWithRangecheck A bi of
        Inl e \<Rightarrow> Inl e
      | Inr i \<Rightarrow>
          (case Accessor_grid A i of
             Inl e \<Rightarrow> Inl e
           | Inr gr \<Rightarrow> Inr (tree_bbox gr)))"

definition Accessor_dualBbox :: "Accessor \<Rightarrow> int \<Rightarrow> error + CoordBBox" where
  "Accessor_dualBbox A bi =
     (case Accessor_negativeToPositiveIndexWithRangecheck A bi of
        Inl e \<Rightarrow> Inl e
      | Inr i \<Rightarrow>
          (case Accessor_bbox A i of
             Inl e \<Rightarrow> Inl e
           | Inr db \<Rightarrow> Inr (db\<lparr>mCoord1 := Coord_plus (mCoord1 db) (1, 1, 1)\<rparr>)))"

definition Accessor_voxelOffset :: "Accessor \<Rightarrow> int \<Rightarrow> error + int64" where
  "Accessor_voxelOffset A bi =
     (case Accessor_negativeToPositiveIndexWithRangecheck A bi of
        Inl e \<Rightarrow> Inl e
      | Inr i \<Rightarrow>
          (case Accessor_metadata A i of Inl e \<Rightarrow> Inl e | Inr m \<Rightarrow> Inr (mCumVoxels m)))"

definition Accessor_leafOffset :: "Accessor \<Rightarrow> int \<Rightarrow> error + int64" where
  "Accessor_leafOffset A bi =
     (case Accessor_negativeToPositiveIndexWithRangecheck A bi of
        Inl e \<Rightarrow> Inl e
      | Inr i \<Rightarrow>
          (case Accessor_metadata A i of Inl e \<Rightarrow> Inl e | Inr m \<Rightarrow> Inr (mCumLeaves m)))"

section \<open>Indexing a batch\<close>

text \<open>
  Modelled from the spec: the constructor \<^verbatim>\<open>GridBatchImpl(device, isMutable)\<close> is
  declared in the header and defined outside the sources. The specification's empty
  batch has batch size 0, no voxels and no storage; the constructor receives the device
  and the mutability flag, and every other field keeps the default member initialiser
  of the header.
\<close>

definition GridBatchImpl_new :: "Device \<Rightarrow> bool \<Rightarrow> GridBatchImpl" where
  "GridBatchImpl_new dev isMut =
     \<lparr>mHostGridMetadata = [],
      mDeviceGridMetadata = None,
      mBatchMetadata = GridBatchMetadata_default\<lparr>mIsMutable := isMut\<rparr>,
      mGridHdl = \<lparr>buffer = \<lparr>mSize = 0, mCpuData = None, mGpuData = None, mDevice = dev\<rparr>,
                  grid = None, deviceGrid = None\<rparr>,
      mLeafBatchIndices = [],
      mBatchOffsets = [0],
      mListIndices = []\<rparr>"

text \<open>
  Modelled from the spec: \<^verbatim>\<open>syncMetadataToDeviceIfCUDA\<close> and
  \<^verbatim>\<open>recomputeBatchOffsets\<close> are declared in the header and defined outside the
  sources. The specification has the accelerator copy of the metadata mirror the host
  array when the storage is on an accelerator, and an offsets array of length batch
  size plus one that gives each element's range of voxels.
\<close>

definition syncMetadataToDeviceIfCUDA :: "bool \<Rightarrow> GridBatchImpl \<Rightarrow> GridBatchImpl" where
  "syncMetadataToDeviceIfCUDA blocking B =
     (if is_cuda (device B) then B\<lparr>mDeviceGridMetadata := Some (mHostGridMetadata B)\<rparr> else B)"

definition recomputeBatchOffsets :: "GridBatchImpl \<Rightarrow> GridBatchImpl" where
  "recomputeBatchOffsets B =
     B\<lparr>mBatchOffsets := map mCumVoxels (mHostGridMetadata B) @ [mTotalVoxels (mBatchMetadata B)]\<rparr>"

text \<open>
  The local variables of the loop of \<^verbatim>\<open>indexInternal\<close>, with the metadata array
  of the new batch. \<^verbatim>\<open>cumLeaves += numLeaves\<close> widens the unsigned 32-bit count
  to 64 bits; the sums wrap around. \<^verbatim>\<open>std::max\<close> compares the voxel counts as
  signed and the leaf counts as unsigned numbers.
\<close>

record index_vars =
  v_cumVoxels :: int64
  v_cumLeaves :: int64
  v_maxVoxels :: int64
  v_maxLeafCount :: uint32
  v_count :: int
  v_totalBbox :: CoordBBox
  v_leafBatchIdxs :: "int list list"
  v_isContiguous :: bool
  v_ret :: "GridMetadata list"

definition index_start :: "GridBatchImpl \<Rightarrow> index_vars" where
  "index_start B =
     \<lparr>v_cumVoxels = 0, v_cumLeaves = 0, v_maxVoxels = 0, v_maxLeafCount = 0, v_count = 0,
      v_totalBbox = CoordBBox_default, v_leafBatchIdxs = [],
      v_isContiguous = mIsContiguous (mBatchMetadata B), v_ret = []\<rparr>"

definition index_body :: "GridBatchImpl \<Rightarrow> int \<Rightarrow> index_vars \<Rightarrow> index_vars" where
  "index_body B bi s =
     (let c = v_count s;
          isC = (v_isContiguous s \<and> bi = c);
          numLeaves = mNumLeaves (mHostGridMetadata B ! nat bi);
          numVoxels = mNumVoxels (mHostGridMetadata B ! nat bi);
          bbox = mBBox (mHostGridMetadata B ! nat bi);
          r1 = v_ret s @ [mHostGridMetadata B ! nat bi];
          r2 = r1[nat c := (r1 ! nat c)\<lparr>mCumLeaves := v_cumLeaves s\<rparr>];
          r3 = r2[nat c := (r2 ! nat c)\<lparr>mCumVoxels := v_cumVoxels s\<rparr>];
          tb = (if c = 0 then bbox else expand (v_totalBbox s) bbox)
      in \<lparr>v_cumVoxels = v_cumVoxels s + numVoxels,
          v_cumLeaves = v_cumLeaves s + ucast numLeaves,
          v_maxVoxels = (if sint (v_maxVoxels s) < sint numVoxels then numVoxels else v_maxVoxels s),
          v_maxLeafCount = (if v_maxLeafCount s < numLeaves then numLeaves else v_maxLeafCount s),
          v_count = c + 1,
          v_totalBbox = tb,
          v_leafBatchIdxs = v_leafBatchIdxs s @ [replicate (unat numLeaves) c],
          v_isContiguous = isC,
          v_ret = r3\<rparr>)"

fun index_loop :: "GridBatchImpl \<Rightarrow> int list \<Rightarrow> index_vars \<Rightarrow> error + index_vars" where
  "index_loop B [] s = Inr s"
| "index_loop B (b # bs) s =
     (case negativeToPositiveIndexWithRangecheck B b of
        Inl e \<Rightarrow> Inl e
      | Inr bi \<Rightarrow> index_loop B bs (index_body B bi s))"

text \<open>
  The statements of \<^verbatim>\<open>indexInternal\<close> after the loop: the new batch shares the
  grid handle of the old one, takes the totals from the loop variables, and is refused
  when the old batch carries list indices.
\<close>

definition index_finish :: "GridBatchImpl \<Rightarrow> index_vars \<Rightarrow> error + GridBatchImpl" where
  "index_finish B s =
     (let ret = \<lparr>mHostGridMetadata = v_ret s,
                 mDeviceGridMetadata = None,
                 mBatchMetadata =
                   \<lparr>version = 1,
                    mTotalLeaves = v_cumLeaves s,
                    mTotalVoxels = v_cumVoxels s,
                    mMaxVoxels = v_maxVoxels s,
                    mMaxLeafCount = v_maxLeafCount s,
                    mTotalBBox = v_totalBbox s,
                    mIsMutable = isMutable B,
                    mIsContiguous = (v_isContiguous s \<and> v_count s = batchSize B)\<rparr>,
                 mGridHdl = mGridHdl B,
                 mLeafBatchIndices = concat (v_leafBatchIdxs s),
                 mBatchOffsets = [],
                 mListIndices = []\<rparr>;
          ret1 = recomputeBatchOffsets (syncMetadataToDeviceIfCUDA False ret)
      in if int (length (mListIndices B)) > 0
         then Inl (Error ''Nested lists of GridBatches are not supported yet'')
         else Inr (ret1\<lparr>mListIndices := mListIndices B\<rparr>))"

text \<open>
  \<open>indexInternal\<close>: \<open>idx\<close> is the indexable object, read at the positions
  \<open>0\<close> to \<open>size - 1\<close>.
\<close>

definition indexInternal :: "GridBatchImpl \<Rightarrow> (nat \<Rightarrow> int) \<Rightarrow> int \<Rightarrow> error + GridBatchImpl" where
  "indexInternal B idx sz =
     (if sz = 0 then Inr (GridBatchImpl_new (device B) (isMutable B))
      else if \<not> sz \<ge> 0
      then Inl (Error ''Indexing with negative size is not supported (this should never happen)'')
      else case index_loop B (map idx [0..<nat sz]) (index_start B) of
             Inl e \<Rightarrow> Inl e
           | Inr s \<Rightarrow> index_finish B s)"

section \<open>Construction\<close>

text \<open>
  Modelled from the spec: the constructors from a grid handle and \<^verbatim>\<open>setGrid\<close> are
  declared in the header and defined outside the sources. The specification has the
  construction walk the grid descriptors of the storage in one pass from left to
  right, taking the leaf count, voxel count, byte size and bounding box of each
  element, keeping running totals and giving each element the totals of the elements
  before it; the batch built this way is in storage order. The per-leaf batch indices
  repeat each element's index once per leaf. \<open>elems\<close> lists, for each element, its
  descriptor, voxel size and origin.
\<close>

record GridDescriptor =
  d_numLeaves :: uint32
  d_numVoxels :: int64
  d_numBytes :: uint64
  d_bbox :: CoordBBox

record build_vars =
  c_cumVoxels :: int64
  c_cumLeaves :: int64
  c_cumBytes :: uint64
  c_maxVoxels :: int64
  c_maxLeafCount :: uint32
  c_count :: int
  c_totalBbox :: CoordBBox
  c_leafBatchIdxs :: "int list list"
  c_meta :: "GridMetadata list"

definition build_start :: build_vars where
  "build_start =
     \<lparr>c_cumVoxels = 0, c_cumLeaves = 0, c_cumBytes = 0, c_maxVoxels = 0, c_maxLeafCount = 0,
      c_count = 0, c_totalBbox = CoordBBox_default, c_leafBatchIdxs = [], c_meta = []\<rparr>"

definition build_body :: "GridDescriptor \<times> Vec3d \<times> Vec3d \<Rightarrow> build_vars \<Rightarrow> build_vars" where
  "build_body d s =
     (case d of (g, voxSize, voxOrigin) \<Rightarrow>
        (let m = setTransform voxSize voxOrigin
                   \<lparr>GridMetadata.version = 1,
                    mCumLeaves = c_cumLeaves s, mCumVoxels = c_cumVoxels s,
                    mCumBytes = c_cumBytes s,
                    mPrimalTransform = \<lparr>mScale = (1, 1, 1), mTranslate = (0, 0, 0)\<rparr>,
                    mDualTransform = \<lparr>mScale = (1, 1, 1), mTranslate = (0, 0, 0)\<rparr>,
                    mVoxelSize = voxSize,
                    mNumLeaves = d_numLeaves g, mNumVoxels = d_numVoxels g,
                    mNumBytes = d_numBytes g, mBBox = d_bbox g\<rparr>
         in \<lparr>c_cumVoxels = c_cumVoxels s + d_numVoxels g,
             c_cumLeaves = c_cumLeaves s + ucast (d_numLeaves g),
             c_cumBytes = c_cumBytes s + d_numBytes g,
             c_maxVoxels = (if sint (c_maxVoxels s) < sint (d_numVoxels g) then d_numVoxels g
                            else c_maxVoxels s),
             c_maxLeafCount = (if c_maxLeafCount s < d_numLeaves g then d_numLeaves g
                               else c_maxLeafCount s),
             c_count = c_count s + 1,
             c_totalBbox = (if c_count s = 0 then d_bbox g else expand (c_totalBbox s) (d_bbox g)),
             c_leafBatchIdxs = c_leafBatchIdxs s @ [replicate (unat (d_numLeaves g)) (c_count s)],
             c_meta = c_meta s @ [m]\<rparr>))"

fun build_loop :: "(GridDescriptor \<times> Vec3d \<times> Vec3d) list \<Rightarrow> build_vars \<Rightarrow> build_vars" where
  "build_loop [] s = s"
| "build_loop (d # ds) s = build_loop ds (build_body d s)"

definition GridBatchImpl_from_handle ::
  "GridHandle \<Rightarrow> bool \<Rightarrow> (GridDescriptor \<times> Vec3d \<times> Vec3d) list \<Rightarrow> GridBatchImpl"
where
  "GridBatchImpl_from_handle hdl isMut elems =
     (let s = build_loop elems build_start;
          B = \<lparr>mHostGridMetadata = c_meta s,
                mDeviceGridMetadata = None,
                mBatchMetadata =
                  \<lparr>version = 1,
                   mTotalLeaves = c_cumLeaves s,
                   mTotalVoxels = c_cumVoxels s,
                   mMaxVoxels = c_maxVoxels s,
                   mMaxLeafCount = c_maxLeafCount s,
                   mTotalBBox = c_totalBbox s,
                   mIsMutable = isMut,
                   mIsContiguous = True\<rparr>,
                mGridHdl = hdl,
                mLeafBatchIndices = concat (c_leafBatchIdxs s),
                mBatchOffsets = [],
                mListIndices = []\<rparr>
      in recomputeBatchOffsets (syncMetadataToDeviceIfCUDA False B))"

section \<open>The wrapper class\<close>

text \<open>
  Modelled from the spec: \<^verbatim>\<open>GridBatch\<close> holds a pointer to the engine; its
  one-line members \<^verbatim>\<open>impl\<close>, \<^verbatim>\<open>grid_count\<close>, \<^verbatim>\<open>is_mutable\<close>,
  \<^verbatim>\<open>num_voxels_at\<close> and \<^verbatim>\<open>cum_voxels_at\<close> are declared in
  \<^verbatim>\<open>GridBatch.h\<close>, which is not among the sources. The specification has the
  batch size, the mutability flag and the voxel counts of an element kept by the
  engine, so the members return the engine's \<^verbatim>\<open>batchSize\<close>, \<^verbatim>\<open>isMutable\<close>,
  \<^verbatim>\<open>numVoxels\<close> and \<^verbatim>\<open>cumVoxels\<close>. The kernel that counts the enabled
  voxels of a mutable grid is outside the sources as well and is a parameter,
  \<open>countEnabled\<close>. A returned tensor is the list of its entries and its device.
\<close>

record GridBatch =
  mImpl :: GridBatchImpl

record Tensor =
  t_data :: "int64 list"
  t_device :: Device

definition impl :: "GridBatch \<Rightarrow> GridBatchImpl" where
  "impl G = mImpl G"

definition grid_count :: "GridBatch \<Rightarrow> int" where
  "grid_count G = batchSize (impl G)"

definition is_mutable :: "GridBatch \<Rightarrow> bool" where
  "is_mutable G = isMutable (impl G)"

definition num_voxels_at :: "GridBatch \<Rightarrow> int \<Rightarrow> error + int64" where
  "num_voxels_at G bi = numVoxels (impl G) bi"

definition cum_voxels_at :: "GridBatch \<Rightarrow> int \<Rightarrow> error + int64" where
  "cum_voxels_at G bi = cumVoxels (impl G) bi"

text \<open>
  The loops that fill a tensor entry by entry, for \<open>bi\<close> from \<open>0\<close> to
  \<open>grid_count - 1\<close>: an exception of the body ends the loop.
\<close>

fun fill_entries :: "(int \<Rightarrow> error + int64) \<Rightarrow> int list \<Rightarrow> error + int64 list" where
  "fill_entries f [] = Inr []"
| "fill_entries f (bi # bis) =
     (case f bi of
        Inl e \<Rightarrow> Inl e
      | Inr v \<Rightarrow> (case fill_entries f bis of Inl e \<Rightarrow> Inl e | Inr vs \<Rightarrow> Inr (v # vs)))"

definition fill_tensor :: "GridBatch \<Rightarrow> (int \<Rightarrow> error + int64) \<Rightarrow> error + Tensor" where
  "fill_tensor G f =
     (case fill_entries f (map int [0..<nat (grid_count G)]) of
        Inl e \<Rightarrow> Inl e
      | Inr vs \<Rightarrow> Inr \<lparr>t_data = vs, t_device = device (impl G)\<rparr>)"

definition num_voxels :: "GridBatch \<Rightarrow> error + Tensor" where
  "num_voxels G = fill_tensor G (num_voxels_at G)"

definition num_enabled_voxels_at ::
  "(GridBatchImpl \<Rightarrow> int \<Rightarrow> error + int64) \<Rightarrow> GridBatch \<Rightarrow> int \<Rightarrow> error + int64"
where
  "num_enabled_voxels_at countEnabled G bi =
     (if \<not> is_mutable G then num_voxels_at G bi else countEnabled (impl G) bi)"

definition num_enabled_voxels ::
  "(GridBatchImpl \<Rightarrow> int \<Rightarrow> error + int64) \<Rightarrow> GridBatch \<Rightarrow> error + Tensor"
where
  "num_enabled_voxels countEnabled G =
     (if \<not> is_mutable G then num_voxels G
      else fill_tensor G (num_enabled_voxels_at countEnabled G))"

definition cum_voxels :: "GridBatch \<Rightarrow> error + Tensor" where
  "cum_voxels G = fill_tensor G (cum_voxels_at G)"

fun sum_entries :: "(int \<Rightarrow> error + int64) \<Rightarrow> int list \<Rightarrow> int64 \<Rightarrow> error + int64" where
  "sum_entries f [] nCum = Inr nCum"
| "sum_entries f (b # bs) nCum =
     (case f b of Inl e \<Rightarrow> Inl e | Inr v \<Rightarrow> sum_entries f bs (nCum + v))"

definition cum_enabled_voxels_at ::
  "(GridBatchImpl \<Rightarrow> int \<Rightarrow> error + int64) \<Rightarrow> GridBatch \<Rightarrow> int \<Rightarrow> error + int64"
where
  "cum_enabled_voxels_at countEnabled G bi =
     sum_entries (num_enabled_voxels_at countEnabled G) (map int [0..<nat bi]) 0"

definition cum_enabled_voxels ::
  "(GridBatchImpl \<Rightarrow> int \<Rightarrow> error + int64) \<Rightarrow> GridBatch \<Rightarrow> error + Tensor"
where
  "cum_enabled_voxels countEnabled G =
     (if \<not> is_mutable G then cum_voxels G
      else fill_tensor G (cum_enabled_voxels_at countEnabled G))"

section \<open>Notions of the specification\<close>

text \<open>
  The specification resolves a negative index by adding the batch size, and calls an
  index valid when the resolved index lies in the batch.
\<close>

definition resolved_index :: "int \<Rightarrow> int \<Rightarrow> int" where
  "resolved_index n bi = (if bi < 0 then n + bi else bi)"

definition valid_index :: "int \<Rightarrow> int \<Rightarrow> bool" where
  "valid_index n bi = (0 \<le> resolved_index n bi \<and> resolved_index n bi < n)"

text \<open>
  The elements an index list selects, and the same elements with the cumulative leaf
  and voxel counts counted afresh from the given starting values.
\<close>

definition selected :: "GridBatchImpl \<Rightarrow> int list \<Rightarrow> GridMetadata list" where
  "selected B L = map (\<lambda>b. mHostGridMetadata B ! nat (resolved_index (batchSize B) b)) L"

fun relabel :: "int64 \<Rightarrow> int64 \<Rightarrow> GridMetadata list \<Rightarrow> GridMetadata list" where
  "relabel cl cv [] = []"
| "relabel cl cv (m # ms) =
     m\<lparr>mCumLeaves := cl, mCumVoxels := cv\<rparr> #
     relabel (cl + ucast (mNumLeaves m)) (cv + mNumVoxels m) ms"

text \<open>The loop of \<open>indexInternal\<close> when no range check fails.\<close>

definition index_run :: "GridBatchImpl \<Rightarrow> int list \<Rightarrow> index_vars \<Rightarrow> index_vars" where
  "index_run B bs s = foldl (\<lambda>s b. index_body B (resolved_index (batchSize B) b) s) s bs"

text \<open>
  The cumulative counts of a metadata array are consistent with the totals \<open>tlv\<close>
  (leaves) and \<open>tvx\<close> (voxels) when each is the sum over the elements before it.
\<close>

definition cum_consistent :: "GridMetadata list \<Rightarrow> int64 \<Rightarrow> int64 \<Rightarrow> bool" where
  "cum_consistent ms tlv tvx \<longleftrightarrow>
     (\<forall>i<length ms.
        mCumVoxels (ms ! i) = sum_list (map mNumVoxels (take i ms)) \<and>
        mCumLeaves (ms ! i) = sum_list (map (\<lambda>m. ucast (mNumLeaves m)) (take i ms))) \<and>
     tvx = sum_list (map mNumVoxels ms) \<and>
     tlv = sum_list (map (\<lambda>m. ucast (mNumLeaves m)) ms)"

text \<open>
  The batches the engine produces: by the constructor of the empty batch, by
  construction from a grid handle, and by indexing any batch.
\<close>

inductive produced :: "GridBatchImpl \<Rightarrow> bool" where
  by_new: "produced (GridBatchImpl_new dev isMut)"
| by_construction: "produced (GridBatchImpl_from_handle hdl isMut elems)"
| by_indexing: "indexInternal B idx sz = Inr B' \<Longrightarrow> produced B'"

section \<open>Example batches\<close>

text \<open>
  A batch of three grids on the host, with 10, 5 and 7 voxels, in storage order; the
  storage of the three grids as the accessors read it; the same batch carrying list
  indices; the batch of size 0 without storage; and the descriptors from which the
  construction builds the batch of three grids.
\<close>

definition ex_box0 :: CoordBBox where
  "ex_box0 = \<lparr>mCoord0 = (0, 0, 0), mCoord1 = (2, 2, 2)\<rparr>"

definition ex_box1 :: CoordBBox where
  "ex_box1 = \<lparr>mCoord0 = (5, 5, 5), mCoord1 = (6, 6, 6)\<rparr>"

definition ex_box2 :: CoordBBox where
  "ex_box2 = \<lparr>mCoord0 = (- 4, 0, 1), mCoord1 = (- 1, 3, 9)\<rparr>"

definition ex_grids :: "uint64 \<Rightarrow> NanoGrid option" where
  "ex_grids off =
     (if off = 0 then Some \<lparr>tree_bbox = ex_box0\<rparr>
      else if off = 96 then Some \<lparr>tree_bbox = ex_box1\<rparr>
      else if off = 160 then Some \<lparr>tree_bbox = ex_box2\<rparr>
      else None)"

definition ex_bytes :: bytes where
  "ex_bytes = replicate 288 0"

definition ex_handle :: GridHandle where
  "ex_handle =
     \<lparr>buffer = \<lparr>mSize = 288, mCpuData = Some ex_bytes, mGpuData = None,
                 mDevice = Device kCPU (- 1)\<rparr>,
      grid = Some ex_grids, deviceGrid = None\<rparr>"

definition ex_meta0 :: GridMetadata where
  "ex_meta0 =
     \<lparr>GridMetadata.version = 1, mCumLeaves = 0, mCumVoxels = 0, mCumBytes = 0,
      mPrimalTransform = \<lparr>mScale = (10, 10, 10), mTranslate = (0, 0, 0)\<rparr>,
      mDualTransform = \<lparr>mScale = (10, 10, 10), mTranslate = (1 / 2, 1 / 2, 1 / 2)\<rparr>,
      mVoxelSize = (1 / 10, 1 / 10, 1 / 10),
      mNumLeaves = 2, mNumVoxels = 10, mNumBytes = 96, mBBox = ex_box0\<rparr>"

definition ex_meta1 :: GridMetadata where
  "ex_meta1 =
     \<lparr>GridMetadata.version = 1, mCumLeaves = 2, mCumVoxels = 10, mCumBytes = 96,
      mPrimalTransform = \<lparr>mScale = (2, 2, 4), mTranslate = (- 2, - 4, - 12)\<rparr>,
      mDualTransform = \<lparr>mScale = (2, 2, 4), mTranslate = (- (3 / 2), - (7 / 2), - (23 / 2))\<rparr>,
      mVoxelSize = (1 / 2, 1 / 2, 1 / 4),
      mNumLeaves = 1, mNumVoxels = 5, mNumBytes = 64, mBBox = ex_box1\<rparr>"

definition ex_meta2 :: GridMetadata where
  "ex_meta2 =
     \<lparr>GridMetadata.version = 1, mCumLeaves = 3, mCumVoxels = 15, mCumBytes = 160,
      mPrimalTransform = \<lparr>mScale = (1, 1, 1), mTranslate = (0, 0, 0)\<rparr>,
      mDualTransform = \<lparr>mScale = (1, 1, 1), mTranslate = (1 / 2, 1 / 2, 1 / 2)\<rparr>,
      mVoxelSize = (1, 1, 1),
      mNumLeaves = 3, mNumVoxels = 7, mNumBytes = 128, mBBox = ex_box2\<rparr>"

definition ex_batch :: GridBatchImpl where
  "ex_batch =
     \<lparr>mHostGridMetadata = [ex_meta0, ex_meta1, ex_meta2],
      mDeviceGridMetadata = None,
      mBatchMetadata =
        \<lparr>version = 1, mTotalLeaves = 6, mTotalVoxels = 22, mMaxVoxels = 10,
         mMaxLeafCount = 3,
         mTotalBBox = \<lparr>mCoord0 = (- 4, 0, 0), mCoord1 = (6, 6, 9)\<rparr>,
         mIsMutable = False, mIsContiguous = True\<rparr>,
      mGridHdl = ex_handle,
      mLeafBatchIndices = [0, 0, 1, 2, 2, 2],
      mBatchOffsets = [0, 10, 15, 22],
      mListIndices = []\<rparr>"

definition ex_nested :: GridBatchImpl where
  "ex_nested = ex_batch\<lparr>mListIndices := [[0], [0], [1]]\<rparr>"

definition ex_empty :: GridBatchImpl where
  "ex_empty =
     \<lparr>mHostGridMetadata = [],
      mDeviceGridMetadata = None,
      mBatchMetadata =
        \<lparr>version = 1, mTotalLeaves = 0, mTotalVoxels = 0, mMaxVoxels = 0,
         mMaxLeafCount = 0, mTotalBBox = CoordBBox_default,
         mIsMutable = False, mIsContiguous = True\<rparr>,
      mGridHdl =
        \<lparr>buffer = \<lparr>mSize = 0, mCpuData = None, mGpuData = None, mDevice = Device kCPU (- 1)\<rparr>,
         grid = None, deviceGrid = None\<rparr>,
      mLeafBatchIndices = [],
      mBatchOffsets = [0],
      mListIndices = []\<rparr>"

definition ex_elems :: "(GridDescriptor \<times> Vec3d \<times> Vec3d) list" where
  "ex_elems =
     [(\<lparr>d_numLeaves = 2, d_numVoxels = 10, d_numBytes = 96, d_bbox = ex_box0\<rparr>,
       (1 / 10, 1 / 10, 1 / 10), (0, 0, 0)),
      (\<lparr>d_numLeaves = 1, d_numVoxels = 5, d_numBytes = 64, d_bbox = ex_box1\<rparr>,
       (1 / 2, 1 / 2, 1 / 4), (1, 2, 3)),
      (\<lparr>d_numLeaves = 3, d_numVoxels = 7, d_numBytes = 128, d_bbox = ex_box2\<rparr>,
       (1, 1, 1), (0, 0, 0))]"

text \<open>
  The batch that indexing the example batch with \<open>[2, 0]\<close> returns: the third and
  the first grid, each with the byte offset it has in the shared storage.
\<close>

definition ex_indexed :: GridBatchImpl where
  "ex_indexed =
     \<lparr>mHostGridMetadata =
        [ex_meta2\<lparr>mCumLeaves := 0, mCumVoxels := 0\<rparr>,
         ex_meta0\<lparr>mCumLeaves := 3, mCumVoxels := 7\<rparr>],
      mDeviceGridMetadata = None,
      mBatchMetadata =
        \<lparr>version = 1, mTotalLeaves = 5, mTotalVoxels = 17, mMaxVoxels = 10,
         mMaxLeafCount = 3,
         mTotalBBox = \<lparr>mCoord0 = (- 4, 0, 0), mCoord1 = (2, 3, 9)\<rparr>,
         mIsMutable = False, mIsContiguous = False\<rparr>,
      mGridHdl = ex_handle,
      mLeafBatchIndices = [0, 0, 0, 1, 1],
      mBatchOffsets = [0, 7, 17],
      mListIndices = []\<rparr>"

text \<open>
  A batch holding one grid of voxel size \<open>3 / 10\<close> and origin \<open>1 / 10\<close>: the first
  example grid coarsened three times along each axis.
\<close>

definition ex_coarse :: GridBatchImpl where
  "ex_coarse =
     ex_batch\<lparr>mHostGridMetadata :=
        [ex_meta0\<lparr>mVoxelSize := (3 / 10, 3 / 10, 3 / 10),
                   mPrimalTransform :=
                     \<lparr>mScale = (10 / 3, 10 / 3, 10 / 3),
                      mTranslate = (- (1 / 3), - (1 / 3), - (1 / 3))\<rparr>,
                   mDualTransform :=
                     \<lparr>mScale = (10 / 3, 10 / 3, 10 / 3),
                      mTranslate = (1 / 6, 1 / 6, 1 / 6)\<rparr>\<rparr>]\<rparr>"

definition ex_countEnabled :: "GridBatchImpl \<Rightarrow> int \<Rightarrow> error + int64" where
  "ex_countEnabled B bi = Inr 0"

section \<open>Lemmas on the range check and the loop of indexing\<close>

lemma rangecheck_eq:
  "negativeToPositiveIndexWithRangecheck B bi =
     (if valid_index (batchSize B) bi then Inr (resolved_index (batchSize B) bi)
      else Inl (IndexError (resolved_index (batchSize B) bi) (batchSize B)))"
  by (simp add: negativeToPositiveIndexWithRangecheck_def valid_index_def resolved_index_def
      Let_def add.commute)

lemma rangecheck_valid:
  "valid_index (batchSize B) bi \<Longrightarrow>
   negativeToPositiveIndexWithRangecheck B bi = Inr (resolved_index (batchSize B) bi)"
  by (simp add: rangecheck_eq)

lemma rangecheck_invalid:
  "\<not> valid_index (batchSize B) bi \<Longrightarrow>
   negativeToPositiveIndexWithRangecheck B bi =
     Inl (IndexError (resolved_index (batchSize B) bi) (batchSize B))"
  by (simp add: rangecheck_eq)

lemma resolved_idem:
  "valid_index n bi \<Longrightarrow> resolved_index n (resolved_index n bi) = resolved_index n bi"
  by (simp add: valid_index_def resolved_index_def)

lemma valid_resolved:
  "valid_index n bi \<Longrightarrow> valid_index n (resolved_index n bi)"
  by (simp add: valid_index_def resolved_index_def)

lemma index_run_Nil: "index_run B [] s = s"
  by (simp add: index_run_def)

lemma index_run_Cons:
  "index_run B (b # bs) s = index_run B bs (index_body B (resolved_index (batchSize B) b) s)"
  by (simp add: index_run_def)

lemma index_loop_valid:
  "\<forall>b\<in>set bs. valid_index (batchSize B) b \<Longrightarrow> index_loop B bs s = Inr (index_run B bs s)"
  by (induction bs arbitrary: s) (simp_all add: rangecheck_valid index_run_Nil index_run_Cons)

lemma index_loop_invalid:
  "\<exists>b\<in>set bs. \<not> valid_index (batchSize B) b \<Longrightarrow>
   \<exists>bi. index_loop B bs s = Inl (IndexError bi (batchSize B))"
proof (induction bs arbitrary: s)
  case Nil
  then show ?case by simp
next
  case (Cons b bs)
  show ?case
  proof (cases "valid_index (batchSize B) b")
    case True
    with Cons.prems have "\<exists>b\<in>set bs. \<not> valid_index (batchSize B) b" by auto
    from Cons.IH [OF this] show ?thesis using True by (simp add: rangecheck_valid)
  next
    case False
    then show ?thesis by (simp add: rangecheck_invalid)
  qed
qed

lemma index_body_count: "v_count (index_body B bi s) = v_count s + 1"
  by (simp add: index_body_def Let_def)

lemma index_body_cumVoxels:
  "v_cumVoxels (index_body B bi s) = v_cumVoxels s + mNumVoxels (mHostGridMetadata B ! nat bi)"
  by (simp add: index_body_def Let_def)

lemma index_body_cumLeaves:
  "v_cumLeaves (index_body B bi s) =
     v_cumLeaves s + ucast (mNumLeaves (mHostGridMetadata B ! nat bi))"
  by (simp add: index_body_def Let_def)

lemma index_body_isContiguous:
  "v_isContiguous (index_body B bi s) = (v_isContiguous s \<and> bi = v_count s)"
  by (simp add: index_body_def Let_def)

lemma index_body_ret:
  assumes "v_count s = int (length (v_ret s))"
  shows "v_ret (index_body B bi s) =
     v_ret s @ [(mHostGridMetadata B ! nat bi)\<lparr>mCumLeaves := v_cumLeaves s, mCumVoxels := v_cumVoxels s\<rparr>]"
  using assms by (simp add: index_body_def Let_def)

lemma index_body_inv:
  assumes "v_count s = int (length (v_ret s))"
  shows "v_count (index_body B bi s) = int (length (v_ret (index_body B bi s)))"
  using assms by (simp add: index_body_ret index_body_count)

lemma index_run_count: "v_count (index_run B bs s) = v_count s + int (length bs)"
  by (induction bs arbitrary: s) (simp_all add: index_run_Nil index_run_Cons index_body_count)

lemma index_run_cumVoxels:
  "v_cumVoxels (index_run B bs s) = v_cumVoxels s + sum_list (map mNumVoxels (selected B bs))"
  by (induction bs arbitrary: s)
    (simp_all add: index_run_Nil index_run_Cons index_body_cumVoxels selected_def add.assoc)

lemma index_run_cumLeaves:
  "v_cumLeaves (index_run B bs s) =
     v_cumLeaves s + sum_list (map (\<lambda>m. ucast (mNumLeaves m)) (selected B bs))"
  by (induction bs arbitrary: s)
    (simp_all add: index_run_Nil index_run_Cons index_body_cumLeaves selected_def add.assoc)

lemma index_run_ret:
  "v_count s = int (length (v_ret s)) \<Longrightarrow>
   v_ret (index_run B bs s) = v_ret s @ relabel (v_cumLeaves s) (v_cumVoxels s) (selected B bs)"
proof (induction bs arbitrary: s)
  case Nil
  then show ?case by (simp add: index_run_Nil selected_def)
next
  case (Cons b bs)
  let ?s1 = "index_body B (resolved_index (batchSize B) b) s"
  have inv: "v_count ?s1 = int (length (v_ret ?s1))"
    using Cons.prems by (rule index_body_inv)
  show ?case
    using Cons.IH [OF inv] Cons.prems
    by (simp add: index_run_Cons index_body_ret index_body_cumVoxels index_body_cumLeaves
        selected_def)
qed

lemma index_run_isContiguous:
  "v_isContiguous (index_run B bs s) =
     (v_isContiguous s \<and>
      map (resolved_index (batchSize B)) bs = map (\<lambda>k. v_count s + int k) [0..<length bs])"
proof (induction bs arbitrary: s)
  case Nil
  then show ?case by (simp add: index_run_Nil)
next
  case (Cons b bs)
  have shift: "map (\<lambda>k. v_count s + int k) [0..<Suc (length bs)] =
      v_count s # map (\<lambda>k. v_count s + 1 + int k) [0..<length bs]"
    by (simp add: upt_conv_Cons map_Suc_upt [symmetric] del: upt_Suc) 
  show ?case
    using Cons.IH [of "index_body B (resolved_index (batchSize B) b) s"]
    by (auto simp add: index_run_Cons index_body_isContiguous index_body_count shift
        simp del: upt_Suc)
qed

lemma length_relabel: "length (relabel cl cv ms) = length ms"
  by (induction ms arbitrary: cl cv) simp_all

lemma map_numVoxels_relabel: "map mNumVoxels (relabel cl cv ms) = map mNumVoxels ms"
  by (induction ms arbitrary: cl cv) simp_all

lemma map_numLeaves_relabel: "map mNumLeaves (relabel cl cv ms) = map mNumLeaves ms"
  by (induction ms arbitrary: cl cv) simp_all

lemma nth_relabel:
  "i < length ms \<Longrightarrow>
   relabel cl cv ms ! i =
     (ms ! i)\<lparr>mCumLeaves := cl + sum_list (map (\<lambda>m. ucast (mNumLeaves m)) (take i ms)),
              mCumVoxels := cv + sum_list (map mNumVoxels (take i ms))\<rparr>"
proof (induction ms arbitrary: cl cv i)
  case Nil
  then show ?case by simp
next
  case (Cons m ms)
  show ?case
  proof (cases i)
    case 0
    then show ?thesis by simp
  next
    case (Suc j)
    with Cons.prems have "j < length ms" by simp
    from Cons.IH [OF this] show ?thesis using Suc by (simp add: add.assoc)
  qed
qed

lemma valid_index_iff: "valid_index n bi \<longleftrightarrow> - n \<le> bi \<and> bi < n"
  by (auto simp add: valid_index_def resolved_index_def)

lemma index_start_inv: "v_count (index_start B) = int (length (v_ret (index_start B)))"
  by (simp add: index_start_def)

lemma index_finish_fields:
  assumes "index_finish B s = Inr B'"
  shows "mHostGridMetadata B' = v_ret s"
    and "mTotalVoxels (mBatchMetadata B') = v_cumVoxels s"
    and "mTotalLeaves (mBatchMetadata B') = v_cumLeaves s"
    and "mIsContiguous (mBatchMetadata B') = (v_isContiguous s \<and> v_count s = batchSize B)"
    and "mIsMutable (mBatchMetadata B') = isMutable B"
    and "mGridHdl B' = mGridHdl B"
    and "mListIndices B = []"
  using assms
  by (auto simp add: index_finish_def Let_def recomputeBatchOffsets_def
      syncMetadataToDeviceIfCUDA_def split: if_splits)

lemma index_finish_ok:
  "mListIndices B = [] \<Longrightarrow> \<exists>B'. index_finish B s = Inr B'"
  by (simp add: index_finish_def Let_def)

lemma index_finish_nested:
  "mListIndices B \<noteq> [] \<Longrightarrow>
   index_finish B s = Inl (Error ''Nested lists of GridBatches are not supported yet'')"
  by (simp add: index_finish_def Let_def)

lemma indexInternal_zero:
  "indexInternal B idx 0 = Inr (GridBatchImpl_new (device B) (isMutable B))"
  by (simp add: indexInternal_def)

lemma indexInternal_pos:
  assumes "0 < sz" and "\<forall>b\<in>set (map idx [0..<nat sz]). valid_index (batchSize B) b"
  shows "indexInternal B idx sz =
     index_finish B (index_run B (map idx [0..<nat sz]) (index_start B))"
  using assms by (simp add: indexInternal_def index_loop_valid)

lemma indexInternal_Inr_pos:
  assumes "indexInternal B idx sz = Inr B'" and "sz \<noteq> 0"
  shows "0 < sz \<and> (\<forall>b\<in>set (map idx [0..<nat sz]). valid_index (batchSize B) b) \<and>
     index_finish B (index_run B (map idx [0..<nat sz]) (index_start B)) = Inr B'"
proof -
  from assms have pos: "0 < sz"
    by (auto simp add: indexInternal_def split: if_splits)
  have valid: "\<forall>b\<in>set (map idx [0..<nat sz]). valid_index (batchSize B) b"
  proof (rule ccontr)
    assume "\<not> ?thesis"
    then have "\<exists>b\<in>set (map idx [0..<nat sz]). \<not> valid_index (batchSize B) b" by blast
    from index_loop_invalid [OF this, of "index_start B"] assms pos
    show False by (auto simp add: indexInternal_def)
  qed
  from indexInternal_pos [OF pos valid] assms(1) show ?thesis using pos valid by simp
qed

lemma indexInternal_meta:
  assumes "indexInternal B idx sz = Inr B'" and "sz \<noteq> 0"
  shows "mHostGridMetadata B' = relabel 0 0 (selected B (map idx [0..<nat sz]))"
    and "mTotalVoxels (mBatchMetadata B') =
           sum_list (map mNumVoxels (selected B (map idx [0..<nat sz])))"
    and "mTotalLeaves (mBatchMetadata B') =
           sum_list (map (\<lambda>m. ucast (mNumLeaves m)) (selected B (map idx [0..<nat sz])))"
    and "mIsContiguous (mBatchMetadata B') =
           (mIsContiguous (mBatchMetadata B) \<and>
            map (resolved_index (batchSize B)) (map idx [0..<nat sz]) = map int [0..<nat sz] \<and>
            sz = batchSize B)"
proof -
  let ?L = "map idx [0..<nat sz]"
  let ?s = "index_run B ?L (index_start B)"
  from indexInternal_Inr_pos [OF assms]
  have pos: "0 < sz" and fin: "index_finish B ?s = Inr B'" by simp_all
  have start: "v_cumLeaves (index_start B) = 0" "v_cumVoxels (index_start B) = 0"
    "v_ret (index_start B) = []" "v_count (index_start B) = 0"
    "v_isContiguous (index_start B) = mIsContiguous (mBatchMetadata B)"
    by (simp_all add: index_start_def)
  show "mHostGridMetadata B' = relabel 0 0 (selected B ?L)"
    using index_finish_fields(1) [OF fin] index_run_ret [OF index_start_inv, of B ?L]
    by (simp add: start)
  show "mTotalVoxels (mBatchMetadata B') = sum_list (map mNumVoxels (selected B ?L))"
    using index_finish_fields(2) [OF fin] by (simp add: index_run_cumVoxels start)
  show "mTotalLeaves (mBatchMetadata B') =
      sum_list (map (\<lambda>m. ucast (mNumLeaves m)) (selected B ?L))"
    using index_finish_fields(3) [OF fin] by (simp add: index_run_cumLeaves start)
  show "mIsContiguous (mBatchMetadata B') =
           (mIsContiguous (mBatchMetadata B) \<and>
            map (resolved_index (batchSize B)) ?L = map int [0..<nat sz] \<and> sz = batchSize B)"
    using index_finish_fields(4) [OF fin] pos
    by (simp add: index_run_isContiguous index_run_count start)
qed

section \<open>Lemmas on transforms, buffers and boxes\<close>







lemma setTransform_size: "mVoxelSize (setTransform vs vo m) = vs"
  by (simp add: setTransform_def voxelTransformForSizeAndOrigin_def Let_def)

lemma setTransform_origin:
  assumes "vs = (s0, s1, s2)" "s0 \<noteq> 0" "s1 \<noteq> 0" "s2 \<noteq> 0"
  shows "meta_voxelOrigin (setTransform vs vo m) = vo"
  using assms
  by (cases vo) (simp add: setTransform_def voxelTransformForSizeAndOrigin_def Let_def
      meta_voxelOrigin_def applyInv_def Vec3d_divide_def Vec3d_minus_def)

lemma new_zero_sized:
  "TorchDeviceBuffer_new fresh 0 data host deviceIndex = Inr b \<Longrightarrow>
     mSize b = 0 \<and> mCpuData b = None \<and> mGpuData b = None"
  by (auto simp add: TorchDeviceBuffer_new_def init_def Let_def split: if_splits)

lemma clear_empty: "mSize (clear b) = 0 \<and> mCpuData (clear b) = None \<and> mGpuData (clear b) = None"
  by (simp add: clear_def)

lemma bbox_valid:
  "valid_index (batchSize B) bi \<Longrightarrow>
   bbox B bi = (if isEmpty B then Inl (Error ''Empty grid'')
                else Inr (mBBox (mHostGridMetadata B ! nat (resolved_index (batchSize B) bi))))"
  by (simp add: bbox_def checkNonEmptyGrid_def rangecheck_valid)

lemma Coord_plus_one:
  "Coord_plus (x, y, z) (1, 1, 1) = (x + 1, y + 1, z + 1)"
  by (simp add: Coord_plus_def)

lemma sint_plus_one:
  fixes x :: int32
  assumes "sint x \<noteq> 2147483647"
  shows "sint (x + 1) = sint x + 1"
proof -
  have lo: "- (2 ^ 31) \<le> sint x" using sint_ge [of x] by simp
  have hi: "sint x < 2 ^ 31" using sint_lt [of x] by simp
  have "sint (x + 1) = signed_take_bit 31 (sint x + 1)"
    by (simp add: sint_word_ariths)
  also have "\<dots> = sint x + 1"
    using lo hi assms by (intro signed_take_bit_int_eq_self) simp_all
  finally show ?thesis .
qed

lemma sint_sum_list_nonneg:
  fixes xs :: "int64 list"
  assumes "\<forall>x\<in>set xs. 0 \<le> sint x" and "sum_list (map sint xs) < 2 ^ 63"
  shows "sint (sum_list xs) = sum_list (map sint xs)"
  using assms
proof (induction xs)
  case Nil
  then show ?case by simp
next
  case (Cons x xs)
  have nonneg: "0 \<le> sum_list (map sint xs)"
    using Cons.prems(1) by (intro sum_list_nonneg) auto
  have x0: "0 \<le> sint x" using Cons.prems(1) by simp
  have tail: "sum_list (map sint xs) < 2 ^ 63" using Cons.prems(2) x0 by simp
  have IH: "sint (sum_list xs) = sum_list (map sint xs)"
    using Cons.IH Cons.prems(1) tail by simp
  have "sint (x + sum_list xs) = signed_take_bit 63 (sint x + sint (sum_list xs))"
    by (simp add: sint_word_ariths)
  also have "\<dots> = sint x + sum_list (map sint xs)"
    unfolding IH using x0 nonneg Cons.prems(2)
    by (intro signed_take_bit_int_eq_self) simp_all
  finally show ?case by simp
qed

lemma uint_sum_list_small:
  fixes xs :: "uint32 list"
  assumes "sum_list (map uint xs) < 2 ^ 63"
  shows "sint (sum_list (map (\<lambda>x. ucast x :: int64) xs)) = sum_list (map uint xs)"
proof -
  have s: "sint (ucast x :: int64) = uint x" for x :: uint32
  proof -
    have u: "uint (ucast x :: int64) = uint x"
      by (simp add: uint_up_ucast is_up)
    have b: "uint x < 2 ^ 63" using uint_lt2p [of x] by simp
    have lo: "- (2 ^ 63) \<le> uint x" by (rule order_trans [of _ 0]) simp_all
    have "sint (ucast x :: int64) = signed_take_bit 63 (uint x)"
      using u by (simp add: sint_uint)
    also have "\<dots> = uint x"
      using lo b by (rule signed_take_bit_int_eq_self)
    finally show ?thesis .
  qed
  have "sint (sum_list (map (\<lambda>x. ucast x :: int64) xs)) =
      sum_list (map sint (map (\<lambda>x. ucast x :: int64) xs))"
    using assms by (intro sint_sum_list_nonneg) (simp_all add: s o_def)
  then show ?thesis by (simp add: s o_def)
qed

section \<open>Lemmas on the cumulative counts\<close>

lemma cum_consistent_Nil: "cum_consistent [] 0 0"
  by (simp add: cum_consistent_def)

lemma cum_consistent_snoc:
  assumes "cum_consistent ms tlv tv" and "mCumVoxels m = tv" and "mCumLeaves m = tlv"
  shows "cum_consistent (ms @ [m]) (tlv + ucast (mNumLeaves m)) (tv + mNumVoxels m)"
  using assms
  by (auto simp add: cum_consistent_def nth_append less_Suc_eq)

lemma map_ucast_numLeaves_relabel:
  "map (\<lambda>m. ucast (mNumLeaves m) :: int64) (relabel cl cv ms) =
   map (\<lambda>m. ucast (mNumLeaves m)) ms"
  by (induction ms arbitrary: cl cv) simp_all

lemma cum_consistent_relabel:
  "cum_consistent (relabel 0 0 xs)
     (sum_list (map (\<lambda>m. ucast (mNumLeaves m)) xs)) (sum_list (map mNumVoxels xs))"
proof -
  have v: "map mNumVoxels (take i (relabel 0 0 xs)) = map mNumVoxels (take i xs)" for i
    by (simp add: take_map [symmetric] map_numVoxels_relabel)
  have l: "map (\<lambda>m. ucast (mNumLeaves m) :: int64) (take i (relabel 0 0 xs)) =
      map (\<lambda>m. ucast (mNumLeaves m)) (take i xs)" for i
    by (simp add: take_map [symmetric] map_ucast_numLeaves_relabel)
  from v [of "length xs"] l [of "length xs"]
  have tot: "map mNumVoxels (relabel 0 0 xs) = map mNumVoxels xs"
    "map (\<lambda>m. ucast (mNumLeaves m) :: int64) (relabel 0 0 xs) = map (\<lambda>m. ucast (mNumLeaves m)) xs"
    by (simp_all add: length_relabel)
  show ?thesis
    unfolding cum_consistent_def
    by (simp add: length_relabel nth_relabel v l tot)
qed

lemma build_body_consistent:
  assumes "cum_consistent (c_meta s) (c_cumLeaves s) (c_cumVoxels s)"
  shows "cum_consistent (c_meta (build_body d s)) (c_cumLeaves (build_body d s))
           (c_cumVoxels (build_body d s))"
proof -
  obtain g vs vo where d: "d = (g, vs, vo)" by (cases d)
  let ?m = "setTransform vs vo
      \<lparr>GridMetadata.version = 1, mCumLeaves = c_cumLeaves s, mCumVoxels = c_cumVoxels s,
       mCumBytes = c_cumBytes s,
       mPrimalTransform = \<lparr>mScale = (1, 1, 1), mTranslate = (0, 0, 0)\<rparr>,
       mDualTransform = \<lparr>mScale = (1, 1, 1), mTranslate = (0, 0, 0)\<rparr>,
       mVoxelSize = vs, mNumLeaves = d_numLeaves g, mNumVoxels = d_numVoxels g,
       mNumBytes = d_numBytes g, mBBox = d_bbox g\<rparr>"
  have m: "mCumVoxels ?m = c_cumVoxels s" "mCumLeaves ?m = c_cumLeaves s"
    "mNumVoxels ?m = d_numVoxels g" "mNumLeaves ?m = d_numLeaves g"
    by (simp_all add: setTransform_def split: prod.splits)
  have "cum_consistent (c_meta s @ [?m]) (c_cumLeaves s + ucast (mNumLeaves ?m))
      (c_cumVoxels s + mNumVoxels ?m)"
    using assms m(1) m(2) by (rule cum_consistent_snoc)
  then show ?thesis
    by (simp add: build_body_def d Let_def m)
qed

lemma build_loop_consistent:
  "cum_consistent (c_meta s) (c_cumLeaves s) (c_cumVoxels s) \<Longrightarrow>
   cum_consistent (c_meta (build_loop ds s)) (c_cumLeaves (build_loop ds s))
     (c_cumVoxels (build_loop ds s))"
  by (induction ds arbitrary: s) (simp_all add: build_body_consistent)

lemma from_handle_consistent:
  "cum_consistent (mHostGridMetadata (GridBatchImpl_from_handle hdl isMut elems))
     (totalLeaves (GridBatchImpl_from_handle hdl isMut elems))
     (totalVoxels (GridBatchImpl_from_handle hdl isMut elems))"
proof -
  have "cum_consistent (c_meta build_start) (c_cumLeaves build_start) (c_cumVoxels build_start)"
    by (simp add: build_start_def cum_consistent_Nil)
  from build_loop_consistent [OF this, of elems] show ?thesis
    by (simp add: GridBatchImpl_from_handle_def Let_def recomputeBatchOffsets_def
        syncMetadataToDeviceIfCUDA_def totalLeaves_def totalVoxels_def)
qed

lemma new_consistent:
  "cum_consistent (mHostGridMetadata (GridBatchImpl_new dev isMut))
     (totalLeaves (GridBatchImpl_new dev isMut)) (totalVoxels (GridBatchImpl_new dev isMut))"
  by (simp add: GridBatchImpl_new_def GridBatchMetadata_default_def totalLeaves_def
      totalVoxels_def cum_consistent_Nil)

lemma indexInternal_consistent:
  assumes "indexInternal B idx sz = Inr B'"
  shows "cum_consistent (mHostGridMetadata B') (totalLeaves B') (totalVoxels B')"
proof (cases "sz = 0")
  case True
  with assms show ?thesis by (auto simp add: indexInternal_zero new_consistent)
next
  case False
  from indexInternal_meta(1,2,3) [OF assms False] show ?thesis
    by (simp add: totalLeaves_def totalVoxels_def cum_consistent_relabel)
qed

lemma produced_consistent:
  "produced B \<Longrightarrow> cum_consistent (mHostGridMetadata B) (totalLeaves B) (totalVoxels B)"
  by (induction rule: produced.induct)
    (simp_all add: new_consistent from_handle_consistent indexInternal_consistent)

section \<open>Lemmas on the queries and on batches produced by indexing\<close>

lemma index_list_result:
  assumes valid: "\<forall>b\<in>set L. valid_index (batchSize B) b"
    and flat: "mListIndices B = [] \<or> L = []"
  shows "\<exists>B'. indexInternal B ((!) L) (int (length L)) = Inr B' \<and>
      mHostGridMetadata B' = relabel 0 0 (selected B L) \<and>
      (L = [] \<longrightarrow> B' = GridBatchImpl_new (device B) (isMutable B)) \<and>
      (L \<noteq> [] \<longrightarrow>
         mIsContiguous (mBatchMetadata B') =
           (mIsContiguous (mBatchMetadata B) \<and>
            map (resolved_index (batchSize B)) L = map int [0..<length L] \<and>
            int (length L) = batchSize B))"
proof (cases "L = []")
  case True
  then show ?thesis
    by (simp add: indexInternal_zero GridBatchImpl_new_def selected_def)
next
  case False
  then have pos: "0 < int (length L)" by simp
  have L: "map ((!) L) [0..<length L] = L" by (rule map_nth)
  from False flat have "mListIndices B = []" by simp
  from index_finish_ok [OF this] obtain B' where
    fin: "index_finish B (index_run B L (index_start B)) = Inr B'" by blast
  have idx: "indexInternal B ((!) L) (int (length L)) = Inr B'"
    using indexInternal_pos [OF pos, of "(!) L" B] valid fin by (simp add: L)
  have nz: "int (length L) \<noteq> 0" using False by simp
  from indexInternal_meta(1) [OF idx nz] indexInternal_meta(4) [OF idx nz] idx False
  show ?thesis by (simp add: L)
qed

lemma numVoxels_valid:
  "valid_index (batchSize B) bi \<Longrightarrow>
   numVoxels B bi = Inr (mNumVoxels (mHostGridMetadata B ! nat (resolved_index (batchSize B) bi)))"
  by (simp add: numVoxels_def rangecheck_valid)

lemma cumVoxels_valid:
  "valid_index (batchSize B) bi \<Longrightarrow>
   cumVoxels B bi = Inr (mCumVoxels (mHostGridMetadata B ! nat (resolved_index (batchSize B) bi)))"
  by (simp add: cumVoxels_def rangecheck_valid)

lemma valid_index_nat: "i < n \<Longrightarrow> valid_index (int n) (int i)"
  by (simp add: valid_index_def resolved_index_def)

lemma resolved_index_nat: "resolved_index n (int i) = int i"
  by (simp add: resolved_index_def)

lemma acc_rangecheck_eq:
  "Accessor_negativeToPositiveIndexWithRangecheck A bi =
     (if valid_index (mGridCount A) bi then Inr (resolved_index (mGridCount A) bi)
      else Inl (Abort ''bi >= 0 && bi < batchSize()''))"
  by (simp add: Accessor_negativeToPositiveIndexWithRangecheck_def Accessor_batchSize_def
      valid_index_def resolved_index_def Let_def add.commute)

lemma produced_totalVoxels_empty:
  assumes "produced B" and "batchSize B = 0"
  shows "totalVoxels B = 0"
  using produced_consistent [OF assms(1)] assms(2)
  by (simp add: cum_consistent_def batchSize_def)

lemma sum_list_take_le:
  fixes f :: "'a \<Rightarrow> int"
  assumes "\<forall>x\<in>set xs. 0 \<le> f x"
  shows "sum_list (map f (take i xs)) \<le> sum_list (map f xs)"
proof -
  have "sum_list (map f xs) = sum_list (map f (take i xs)) + sum_list (map f (drop i xs))"
    by (metis append_take_drop_id map_append sum_list_append)
  moreover have "0 \<le> sum_list (map f (drop i xs))"
    using assms by (intro sum_list_nonneg) (auto dest: in_set_dropD)
  ultimately show ?thesis by simp
qed

lemma sint_sum_voxels:
  fixes ms :: "GridMetadata list"
  assumes "\<forall>m\<in>set ms. 0 \<le> sint (mNumVoxels m)"
    and "sum_list (map (\<lambda>m. sint (mNumVoxels m)) ms) < 2 ^ 63"
  shows "sint (sum_list (map mNumVoxels (take i ms))) =
     sum_list (map (\<lambda>m. sint (mNumVoxels m)) (take i ms))"
proof -
  have le: "sum_list (map (\<lambda>m. sint (mNumVoxels m)) (take i ms)) < 2 ^ 63"
    using sum_list_take_le [of ms "\<lambda>m. sint (mNumVoxels m)" i] assms by simp
  have "sint (sum_list (map mNumVoxels (take i ms))) =
      sum_list (map sint (map mNumVoxels (take i ms)))"
    using assms(1) le by (intro sint_sum_list_nonneg) (auto simp add: o_def dest: in_set_takeD)
  then show ?thesis by (simp add: o_def)
qed

lemma sint_sum_leaves:
  fixes ms :: "GridMetadata list"
  assumes "sum_list (map (\<lambda>m. uint (mNumLeaves m)) ms) < 2 ^ 63"
  shows "sint (sum_list (map (\<lambda>m. ucast (mNumLeaves m) :: int64) (take i ms))) =
     sum_list (map (\<lambda>m. uint (mNumLeaves m)) (take i ms))"
proof -
  have le: "sum_list (map (\<lambda>m. uint (mNumLeaves m)) (take i ms)) < 2 ^ 63"
    using sum_list_take_le [of ms "\<lambda>m. uint (mNumLeaves m)" i] assms by simp
  have "sint (sum_list (map (\<lambda>x. ucast x :: int64) (map mNumLeaves (take i ms)))) =
      sum_list (map uint (map mNumLeaves (take i ms)))"
    using le by (intro uint_sum_list_small) (simp add: o_def)
  then show ?thesis by (simp add: o_def)
qed

lemma identity_valid: "\<forall>b\<in>set (map int [0..<n]). valid_index (int n) b"
  by (simp add: valid_index_def resolved_index_def)

lemma identity_resolved: "map (resolved_index k) (map int [0..<n]) = map int [0..<n]"
  by (simp add: resolved_index_def)

section \<open>Lemmas on the byte offsets\<close>

lemma build_body_bytes:
  assumes "\<forall>i<length (c_meta s).
      mCumBytes (c_meta s ! i) = sum_list (map mNumBytes (take i (c_meta s)))"
    and "c_cumBytes s = sum_list (map mNumBytes (c_meta s))"
  shows "(\<forall>i<length (c_meta (build_body d s)).
      mCumBytes (c_meta (build_body d s) ! i) =
        sum_list (map mNumBytes (take i (c_meta (build_body d s))))) \<and>
    c_cumBytes (build_body d s) = sum_list (map mNumBytes (c_meta (build_body d s)))"
proof -
  obtain g vs vo where d: "d = (g, vs, vo)" by (cases d)
  show ?thesis
    using assms
    by (auto simp add: build_body_def d Let_def setTransform_def nth_append less_Suc_eq
        split: prod.splits)
qed

lemma build_loop_bytes:
  "(\<forall>i<length (c_meta s).
      mCumBytes (c_meta s ! i) = sum_list (map mNumBytes (take i (c_meta s)))) \<and>
   c_cumBytes s = sum_list (map mNumBytes (c_meta s)) \<Longrightarrow>
   (\<forall>i<length (c_meta (build_loop ds s)).
      mCumBytes (c_meta (build_loop ds s) ! i) =
        sum_list (map mNumBytes (take i (c_meta (build_loop ds s))))) \<and>
   c_cumBytes (build_loop ds s) = sum_list (map mNumBytes (c_meta (build_loop ds s)))"
proof (induction ds arbitrary: s)
  case Nil
  then show ?case by simp
next
  case (Cons d ds)
  from Cons.prems have "(\<forall>i<length (c_meta (build_body d s)).
      mCumBytes (c_meta (build_body d s) ! i) =
        sum_list (map mNumBytes (take i (c_meta (build_body d s))))) \<and>
    c_cumBytes (build_body d s) = sum_list (map mNumBytes (c_meta (build_body d s)))"
    by (intro build_body_bytes) simp_all
  from Cons.IH [OF this] show ?case by simp
qed

lemma from_handle_meta:
  "mHostGridMetadata (GridBatchImpl_from_handle hdl isMut elems) =
     c_meta (build_loop elems build_start)"
  by (simp add: GridBatchImpl_from_handle_def Let_def recomputeBatchOffsets_def
      syncMetadataToDeviceIfCUDA_def)

lemma from_handle_bytes:
  assumes "i < length (mHostGridMetadata (GridBatchImpl_from_handle hdl isMut elems))"
  shows "mCumBytes (mHostGridMetadata (GridBatchImpl_from_handle hdl isMut elems) ! i) =
     sum_list (map mNumBytes (take i (mHostGridMetadata (GridBatchImpl_from_handle hdl isMut elems))))"
proof -
  have "(\<forall>i<length (c_meta build_start).
      mCumBytes (c_meta build_start ! i) = sum_list (map mNumBytes (take i (c_meta build_start)))) \<and>
   c_cumBytes build_start = sum_list (map mNumBytes (c_meta build_start))"
    by (simp add: build_start_def)
  from build_loop_bytes [OF this, of elems] assms show ?thesis
    by (simp add: from_handle_meta)
qed

lemma cumBytes_valid:
  "valid_index (batchSize B) bi \<Longrightarrow>
   cumBytes B bi = Inr (mCumBytes (mHostGridMetadata B ! nat (resolved_index (batchSize B) bi)))"
  by (simp add: cumBytes_def rangecheck_valid)

lemma indexInternal_bytes:
  assumes idx: "indexInternal B idx sz = Inr B'" and nz: "sz \<noteq> 0" and i: "i < nat sz"
  shows "cumBytes B' (int i) = cumBytes B (idx i)"
proof -
  let ?L = "map idx [0..<nat sz]"
  from indexInternal_Inr_pos [OF idx nz]
  have valid: "\<forall>b\<in>set ?L. valid_index (batchSize B) b" by simp
  have vi: "valid_index (batchSize B) (idx i)" using valid i by simp
  have meta: "mHostGridMetadata B' = relabel 0 0 (selected B ?L)"
    by (rule indexInternal_meta(1) [OF idx nz])
  have len: "length (selected B ?L) = nat sz" by (simp add: selected_def)
  have i': "i < length (selected B ?L)" using i len by simp
  have sel: "selected B ?L ! i = mHostGridMetadata B ! nat (resolved_index (batchSize B) (idx i))"
    using i by (simp add: selected_def)
  have bs: "batchSize B' = int (nat sz)"
    by (simp add: batchSize_def meta length_relabel len)
  have "cumBytes B' (int i) = Inr (mCumBytes (mHostGridMetadata B' ! i))"
    using cumBytes_valid [of B' "int i"] valid_index_nat [OF i]
    by (simp add: bs resolved_index_nat)
  also have "\<dots> = Inr (mCumBytes (selected B ?L ! i))"
    by (simp add: meta nth_relabel [OF i'])
  also have "\<dots> = cumBytes B (idx i)"
    by (simp add: cumBytes_valid [OF vi] sel)
  finally show ?thesis .
qed

section \<open>Facts about the example batches\<close>

lemmas ex_unfold =
  ex_batch_def ex_nested_def ex_empty_def ex_coarse_def ex_handle_def
  ex_meta0_def ex_meta1_def ex_meta2_def
  device_def isEmpty_def buffer_isEmpty_def batchSize_def


lemmas build_unfold =
  GridBatchImpl_from_handle_def GridBatchImpl_new_def GridBatchMetadata_default_def
  build_body_def build_start_def Let_def recomputeBatchOffsets_def
  syncMetadataToDeviceIfCUDA_def setTransform_def voxelTransformForSizeAndOrigin_def
  Vec3d_divide_def Vec3d_minus_def Vec3d_plus_def

lemma replicate_small:
  "replicate 1 x = [x]" "replicate 2 x = [x, x]" "replicate 3 x = [x, x, x]"
  by (simp_all add: numeral_2_eq_2 numeral_3_eq_3)

lemma ex_batch_built: "GridBatchImpl_from_handle ex_handle False ex_elems = ex_batch"
  by (simp add: ex_unfold build_unfold ex_elems_def expand_def minComponent_def
      maxComponent_def ex_box0_def ex_box1_def ex_box2_def replicate_small)

lemma ex_empty_new: "GridBatchImpl_new (Device kCPU (- 1)) False = ex_empty"
  by (simp add: ex_unfold build_unfold)

lemma ex_batch_indexed: "indexInternal ex_batch ((!) [2, 0]) 2 = Inr ex_indexed"
proof -
  have upt: "[0..<2] = [0, 1]" by (simp add: upt_rec)
  show ?thesis
    by (simp add: indexInternal_def index_finish_def index_body_def index_start_def upt
        negativeToPositiveIndexWithRangecheck_def isMutable_def Let_def
        recomputeBatchOffsets_def syncMetadataToDeviceIfCUDA_def ex_indexed_def ex_unfold
        expand_def minComponent_def maxComponent_def ex_box0_def ex_box2_def
        replicate_small)
qed

lemma ex_batch_size: "batchSize ex_batch = 3" "batchSize ex_nested = 3" "batchSize ex_empty = 0"
  "batchSize ex_coarse = 1"
  by (simp_all add: ex_unfold)

lemma ex_batch_flags:
  "isEmpty ex_batch = False" "isEmpty ex_empty = True" "device ex_batch = Device kCPU (- 1)"
  "mListIndices ex_batch = []" "mListIndices ex_nested = [[0], [0], [1]]"
  "isMutable ex_batch = False" "isContiguous ex_batch = True"
  by (simp_all add: ex_unfold isMutable_def isContiguous_def)

lemma ex_batch_numVoxels:
  "numVoxels ex_batch 0 = Inr 10" "numVoxels ex_batch 1 = Inr 5" "numVoxels ex_batch 2 = Inr 7"
  "numVoxels ex_batch (- 1) = Inr 7"
  by (simp_all add: numVoxels_def negativeToPositiveIndexWithRangecheck_def ex_unfold)

lemma ex_batch_voxel_list: "map mNumVoxels (mHostGridMetadata ex_batch) = [10, 5, 7]"
  by (simp add: ex_unfold)

section \<open>The claims\<close>

subsection \<open>C1\<close>

text \<open>
  Claim C1. Let \<open>B\<close> be a batch of size \<open>n\<close> and \<open>L\<close> an index list whose entries
  all lie in \<open>[- n, n)\<close>. When \<open>B\<close> carries no list indices, or \<open>L\<close> is empty,
  indexing returns a new batch whose batch size is the length of \<open>L\<close>; for every
  position \<open>i\<close> its voxel count at \<open>i\<close> is the voxel count of \<open>B\<close> at \<open>L ! i\<close>,
  and its metadata at \<open>i\<close> is the metadata of the selected element of \<open>B\<close> in every
  field but the cumulative leaf and voxel counts. The restriction to batches without
  list indices is needed: \<open>indexInternal\<close> refuses every other batch once the loop has
  run, as the counterexample below shows.
\<close>

theorem C1_index_selects_elements:
  assumes "\<forall>b\<in>set L. - batchSize B \<le> b \<and> b < batchSize B"
    and "mListIndices B = [] \<or> L = []"
  shows "\<exists>B'. indexInternal B ((!) L) (int (length L)) = Inr B' \<and>
      batchSize B' = int (length L) \<and>
      (\<forall>i<length L.
         numVoxels B' (int i) = numVoxels B (L ! i) \<and>
         mHostGridMetadata B' ! i =
           (mHostGridMetadata B ! nat (if L ! i < 0 then batchSize B + L ! i else L ! i))
             \<lparr>mCumLeaves := mCumLeaves (mHostGridMetadata B' ! i),
              mCumVoxels := mCumVoxels (mHostGridMetadata B' ! i)\<rparr>)"
proof -
  have valid: "\<forall>b\<in>set L. valid_index (batchSize B) b"
    using assms(1) by (simp add: valid_index_iff)
  from index_list_result [OF valid assms(2)] obtain B' where
    idx: "indexInternal B ((!) L) (int (length L)) = Inr B'"
    and meta: "mHostGridMetadata B' = relabel 0 0 (selected B L)"
    by blast
  have len: "batchSize B' = int (length L)"
    by (simp add: batchSize_def meta length_relabel selected_def)
  have elem: "numVoxels B' (int i) = numVoxels B (L ! i) \<and>
         mHostGridMetadata B' ! i =
           (mHostGridMetadata B ! nat (if L ! i < 0 then batchSize B + L ! i else L ! i))
             \<lparr>mCumLeaves := mCumLeaves (mHostGridMetadata B' ! i),
              mCumVoxels := mCumVoxels (mHostGridMetadata B' ! i)\<rparr>"
    if i: "i < length L" for i
  proof -
    have sel: "selected B L ! i = mHostGridMetadata B ! nat (resolved_index (batchSize B) (L ! i))"
      using i by (simp add: selected_def)
    have i': "i < length (selected B L)" using i by (simp add: selected_def)
    have v: "valid_index (batchSize B) (L ! i)" using valid i by simp
    have "numVoxels B' (int i) = Inr (mNumVoxels (mHostGridMetadata B' ! i))"
      using numVoxels_valid [of B' "int i"] valid_index_nat [OF i]
      by (simp add: len resolved_index_nat)
    also have "\<dots> = Inr (mNumVoxels (selected B L ! i))"
      by (simp add: meta nth_relabel [OF i'])
    also have "\<dots> = numVoxels B (L ! i)"
      by (simp add: numVoxels_valid [OF v] sel)
    finally have nv: "numVoxels B' (int i) = numVoxels B (L ! i)" .
    have "mHostGridMetadata B' ! i =
        (selected B L ! i)\<lparr>mCumLeaves := mCumLeaves (mHostGridMetadata B' ! i),
                            mCumVoxels := mCumVoxels (mHostGridMetadata B' ! i)\<rparr>"
      by (simp add: meta nth_relabel [OF i'])
    with nv show ?thesis by (simp add: sel resolved_index_def)
  qed
  from idx len elem show ?thesis by blast
qed

text \<open>
  The example batch indexed with \<open>[2, - 3]\<close>: two elements, with the voxel counts of the
  third and of the first grid.
\<close>

theorem C1_index_selects_elements_witness:
  "\<exists>B'. indexInternal ex_batch ((!) [2, - 3]) 2 = Inr B' \<and> batchSize B' = 2 \<and>
     numVoxels B' 0 = Inr 7 \<and> numVoxels B' 1 = Inr 10"
proof -
  have h1: "\<forall>b\<in>set [2, - 3]. - batchSize ex_batch \<le> b \<and> b < batchSize ex_batch"
    by (simp add: ex_batch_size)
  have h2: "mListIndices ex_batch = [] \<or> [2, - 3 :: int] = []"
    by (simp add: ex_batch_flags)
  have v: "numVoxels ex_batch (- 3) = Inr 10"
    by (simp add: numVoxels_def negativeToPositiveIndexWithRangecheck_def ex_unfold)
  from C1_index_selects_elements [OF h1 h2] obtain B' where
    a: "indexInternal ex_batch ((!) [2, - 3]) 2 = Inr B'" and b: "batchSize B' = 2"
    and c: "\<forall>i<2. numVoxels B' (int i) = numVoxels ex_batch ([2, - 3] ! i)"
    by auto
  from c [rule_format, of 0] c [rule_format, of 1]
  have "numVoxels B' 0 = Inr 7 \<and> numVoxels B' 1 = Inr 10"
    by (simp add: ex_batch_numVoxels v)
  with a b show ?thesis by blast
qed

text \<open>
  The claim as stated, for every batch, fails on a batch that carries list indices: the
  index list \<open>[0]\<close> is valid for it and indexing raises an error.
\<close>

theorem C1_counterexample:
  "- batchSize ex_nested \<le> 0 \<and> 0 < batchSize ex_nested \<and>
   indexInternal ex_nested ((!) [0]) 1 =
     Inl (Error ''Nested lists of GridBatches are not supported yet'')"
proof -
  have v: "\<forall>b\<in>set (map ((!) [0]) [0..<nat 1]). valid_index (batchSize ex_nested) b"
    by (simp add: valid_index_def resolved_index_def ex_batch_size)
  have "indexInternal ex_nested ((!) [0]) 1 =
      index_finish ex_nested (index_run ex_nested (map ((!) [0]) [0..<nat 1]) (index_start ex_nested))"
    using v by (intro indexInternal_pos) simp_all
  then show ?thesis
    by (simp add: index_finish_nested ex_batch_flags ex_batch_size)
qed

subsection \<open>C2\<close>

text \<open>
  Claim C2. In every batch produced by construction or by indexing, the cumulative
  voxel count of element \<open>i\<close>, as the query \<open>cumVoxels\<close> returns it, is the sum of the
  voxel counts of the elements before \<open>i\<close>, the cumulative leaf count is the sum of
  their leaf counts, and the totals of the batch are the sums over all elements. The
  sums are those of the 64-bit counters; when no voxel count is negative and the sums
  stay below \<open>2 ^ 63\<close> they are the sums of the integers the counters stand for. The
  third cumulative field, the byte offset, is the sum of the byte sizes of the elements
  before it in a batch built by the construction, and in a batch returned by indexing
  it is the byte offset of the selected element of the old batch, as the storage is
  shared. The construction is the one modelled from the specification; indexing is
  \<open>indexInternal\<close>.
\<close>

theorem C2_cumulative_prefix_sums:
  fixes B :: GridBatchImpl and hdl :: GridHandle and isMut :: bool
    and elems :: "(GridDescriptor \<times> Vec3d \<times> Vec3d) list"
  defines "ms \<equiv> mHostGridMetadata B"
  defines "cs \<equiv> mHostGridMetadata (GridBatchImpl_from_handle hdl isMut elems)"
  shows "(produced B \<longrightarrow>
           (\<forall>i<length ms.
              cumVoxels B (int i) = Inr (sum_list (map mNumVoxels (take i ms))) \<and>
              mCumVoxels (ms ! i) = sum_list (map mNumVoxels (take i ms)) \<and>
              mCumLeaves (ms ! i) = sum_list (map (\<lambda>m. ucast (mNumLeaves m)) (take i ms))) \<and>
           totalVoxels B = sum_list (map mNumVoxels ms) \<and>
           totalLeaves B = sum_list (map (\<lambda>m. ucast (mNumLeaves m)) ms) \<and>
           ((\<forall>m\<in>set ms. 0 \<le> sint (mNumVoxels m)) \<and>
            sum_list (map (\<lambda>m. sint (mNumVoxels m)) ms) < 2 ^ 63 \<longrightarrow>
              (\<forall>i<length ms.
                 sint (mCumVoxels (ms ! i)) =
                   sum_list (map (\<lambda>m. sint (mNumVoxels m)) (take i ms))) \<and>
              sint (totalVoxels B) = sum_list (map (\<lambda>m. sint (mNumVoxels m)) ms)) \<and>
           (sum_list (map (\<lambda>m. uint (mNumLeaves m)) ms) < 2 ^ 63 \<longrightarrow>
              (\<forall>i<length ms.
                 sint (mCumLeaves (ms ! i)) =
                   sum_list (map (\<lambda>m. uint (mNumLeaves m)) (take i ms))) \<and>
              sint (totalLeaves B) = sum_list (map (\<lambda>m. uint (mNumLeaves m)) ms))) \<and>
         (\<forall>i<length cs. mCumBytes (cs ! i) = sum_list (map mNumBytes (take i cs))) \<and>
         (\<forall>B'. indexInternal B idx sz = Inr B' \<and> sz \<noteq> 0 \<longrightarrow>
            (\<forall>i<nat sz. cumBytes B' (int i) = cumBytes B (idx i)))"
proof -
  have counts: "(\<forall>i<length ms.
              cumVoxels B (int i) = Inr (sum_list (map mNumVoxels (take i ms))) \<and>
              mCumVoxels (ms ! i) = sum_list (map mNumVoxels (take i ms)) \<and>
              mCumLeaves (ms ! i) = sum_list (map (\<lambda>m. ucast (mNumLeaves m)) (take i ms))) \<and>
           totalVoxels B = sum_list (map mNumVoxels ms) \<and>
           totalLeaves B = sum_list (map (\<lambda>m. ucast (mNumLeaves m)) ms) \<and>
           ((\<forall>m\<in>set ms. 0 \<le> sint (mNumVoxels m)) \<and>
            sum_list (map (\<lambda>m. sint (mNumVoxels m)) ms) < 2 ^ 63 \<longrightarrow>
              (\<forall>i<length ms.
                 sint (mCumVoxels (ms ! i)) =
                   sum_list (map (\<lambda>m. sint (mNumVoxels m)) (take i ms))) \<and>
              sint (totalVoxels B) = sum_list (map (\<lambda>m. sint (mNumVoxels m)) ms)) \<and>
           (sum_list (map (\<lambda>m. uint (mNumLeaves m)) ms) < 2 ^ 63 \<longrightarrow>
              (\<forall>i<length ms.
                 sint (mCumLeaves (ms ! i)) =
                   sum_list (map (\<lambda>m. uint (mNumLeaves m)) (take i ms))) \<and>
              sint (totalLeaves B) = sum_list (map (\<lambda>m. uint (mNumLeaves m)) ms))"
    if p: "produced B"
  proof -
    from produced_consistent [OF p]
    have cv: "\<And>i. i < length ms \<Longrightarrow> mCumVoxels (ms ! i) = sum_list (map mNumVoxels (take i ms))"
      and cl: "\<And>i. i < length ms \<Longrightarrow>
          mCumLeaves (ms ! i) = sum_list (map (\<lambda>m. ucast (mNumLeaves m)) (take i ms))"
      and tv: "totalVoxels B = sum_list (map mNumVoxels ms)"
      and tlv: "totalLeaves B = sum_list (map (\<lambda>m. ucast (mNumLeaves m)) ms)"
      by (simp_all add: cum_consistent_def ms_def)
    have q: "cumVoxels B (int i) = Inr (sum_list (map mNumVoxels (take i ms)))"
      if "i < length ms" for i
      using that cumVoxels_valid [of B "int i"] valid_index_nat [OF that] cv [OF that]
      by (simp add: batchSize_def ms_def resolved_index_nat)
    have iv: "sint (mCumVoxels (ms ! i)) = sum_list (map (\<lambda>m. sint (mNumVoxels m)) (take i ms))"
      if "\<forall>m\<in>set ms. 0 \<le> sint (mNumVoxels m)"
        "sum_list (map (\<lambda>m. sint (mNumVoxels m)) ms) < 2 ^ 63" "i < length ms" for i
      using that by (simp add: cv sint_sum_voxels)
    have itv: "sint (totalVoxels B) = sum_list (map (\<lambda>m. sint (mNumVoxels m)) ms)"
      if "\<forall>m\<in>set ms. 0 \<le> sint (mNumVoxels m)"
        "sum_list (map (\<lambda>m. sint (mNumVoxels m)) ms) < 2 ^ 63"
      using sint_sum_voxels [OF that, of "length ms"] by (simp add: tv)
    have il: "sint (mCumLeaves (ms ! i)) = sum_list (map (\<lambda>m. uint (mNumLeaves m)) (take i ms))"
      if "sum_list (map (\<lambda>m. uint (mNumLeaves m)) ms) < 2 ^ 63" "i < length ms" for i
      using that by (simp add: cl sint_sum_leaves)
    have itl: "sint (totalLeaves B) = sum_list (map (\<lambda>m. uint (mNumLeaves m)) ms)"
      if "sum_list (map (\<lambda>m. uint (mNumLeaves m)) ms) < 2 ^ 63"
      using sint_sum_leaves [OF that, of "length ms"] by (simp add: tlv)
    show ?thesis
      using q cv cl tv tlv iv itv il itl by blast
  qed
  have built: "\<forall>i<length cs. mCumBytes (cs ! i) = sum_list (map mNumBytes (take i cs))"
    unfolding cs_def by (simp add: from_handle_bytes)
  have indexed: "\<forall>B'. indexInternal B idx sz = Inr B' \<and> sz \<noteq> 0 \<longrightarrow>
            (\<forall>i<nat sz. cumBytes B' (int i) = cumBytes B (idx i))"
    using indexInternal_bytes [of B idx sz] by blast
  from counts built indexed show ?thesis by blast
qed

text \<open>
  The example batch, which the construction builds, and the batch that indexing it
  with \<open>[2, 0]\<close> returns.
\<close>

theorem C2_cumulative_prefix_sums_witness:
  "totalVoxels ex_batch = 22 \<and> cumVoxels ex_batch 2 = Inr 15 \<and>
   cumVoxels ex_indexed 1 = Inr 7 \<and> totalVoxels ex_indexed = 17 \<and>
   cumBytes ex_batch 2 = Inr 160 \<and> cumBytes ex_indexed 0 = Inr 160"
proof -
  have p: "produced ex_batch"
    using produced.by_construction [of ex_handle False ex_elems] by (simp add: ex_batch_built)
  have n: "length (mHostGridMetadata ex_batch) = 3"
    using ex_batch_size(1) by (simp add: batchSize_def)
  note inst = C2_cumulative_prefix_sums
    [where B = ex_batch and hdl = ex_handle and isMut = False and elems = ex_elems
       and idx = "(!) [2, 0]" and sz = 2]
  from inst [THEN conjunct1] p
  have a: "totalVoxels ex_batch = 22"
    by (simp add: ex_batch_voxel_list)
  from inst [THEN conjunct1, rule_format, OF p, THEN conjunct1, rule_format, of 2] n
  have b: "cumVoxels ex_batch 2 = Inr 15"
    by (simp add: take_map [symmetric] ex_batch_voxel_list)
  from inst [THEN conjunct2, THEN conjunct1, rule_format, of 2] n
  have e: "cumBytes ex_batch 2 = Inr 160"
    by (simp add: ex_batch_built cumBytes_def negativeToPositiveIndexWithRangecheck_def
        batchSize_def) (simp add: ex_unfold)
  from inst [THEN conjunct2, THEN conjunct2, rule_format, of ex_indexed 0] e
  have f: "cumBytes ex_indexed 0 = Inr 160"
    by (simp add: ex_batch_indexed)
  have p': "produced ex_indexed" using ex_batch_indexed by (rule produced.by_indexing)
  have vl: "map mNumVoxels (mHostGridMetadata ex_indexed) = [7, 10]"
    by (simp add: ex_indexed_def ex_meta0_def ex_meta2_def)
  have n': "length (mHostGridMetadata ex_indexed) = 2"
    by (simp add: ex_indexed_def)
  note inst' = C2_cumulative_prefix_sums [where B = ex_indexed, THEN conjunct1, rule_format, OF p']
  from inst' [THEN conjunct2, THEN conjunct1]
  have c: "totalVoxels ex_indexed = 17"
    by (simp add: vl)
  from inst' [THEN conjunct1, rule_format, of 1] n'
  have d: "cumVoxels ex_indexed 1 = Inr 7"
    by (simp add: take_map [symmetric] vl)
  from a b c d e f show ?thesis by blast
qed

text \<open>
  The claim as stated, for the cumulative fields of a batch produced by indexing, fails
  for the byte offset: in the batch that indexing with \<open>[2, 0]\<close> returns, the first
  element has byte offset 160 with no element before it, and the second has byte offset
  0 after an element of 128 bytes.
\<close>

theorem C2_counterexample:
  "indexInternal ex_batch ((!) [2, 0]) 2 = Inr ex_indexed \<and>
   cumBytes ex_indexed 0 = Inr 160 \<and>
   sum_list (map mNumBytes (take 0 (mHostGridMetadata ex_indexed))) = 0 \<and>
   cumBytes ex_indexed 1 = Inr 0 \<and>
   sum_list (map mNumBytes (take 1 (mHostGridMetadata ex_indexed))) = 128"
  by (simp add: ex_batch_indexed cumBytes_def negativeToPositiveIndexWithRangecheck_def
      batchSize_def)
    (simp add: ex_indexed_def ex_meta0_def ex_meta2_def)

subsection \<open>C3\<close>

text \<open>
  Claim C3. Let \<open>B\<close> be a batch of size \<open>n\<close> that carries no list indices. Indexing
  with the identity list \<open>[0, ..., n - 1]\<close> returns a batch whose contiguity flag is
  that of \<open>B\<close> (for \<open>n = 0\<close> the result is the fresh empty batch, whose flag is
  set). Indexing with a non-empty valid index list that does not resolve to the
  identity list, hence with any permuted, gapped, repeated or shortened one, returns a
  batch whose contiguity flag is not set. A batch that carries list indices is refused,
  as the counterexample below shows.
\<close>

theorem C3_contiguity:
  assumes "mListIndices B = []"
  shows "(\<exists>B'. indexInternal B ((!) (map int [0..<length (mHostGridMetadata B)])) (batchSize B) =
             Inr B' \<and>
           (isContiguous B' \<longleftrightarrow> isContiguous B \<or> batchSize B = 0)) \<and>
         (\<forall>L. L \<noteq> [] \<and> (\<forall>b\<in>set L. - batchSize B \<le> b \<and> b < batchSize B) \<and>
              map (\<lambda>b. if b < 0 then batchSize B + b else b) L \<noteq>
                map int [0..<length (mHostGridMetadata B)] \<longrightarrow>
              (\<exists>B'. indexInternal B ((!) L) (int (length L)) = Inr B' \<and> \<not> isContiguous B'))"
proof -
  let ?N = "length (mHostGridMetadata B)"
  let ?I = "map int [0..<?N]"
  have flat: "mListIndices B = [] \<or> L = []" for L :: "int list"
    using assms by simp
  have a: "\<exists>B'. indexInternal B ((!) ?I) (batchSize B) = Inr B' \<and>
      (isContiguous B' \<longleftrightarrow> isContiguous B \<or> batchSize B = 0)"
  proof -
    have valid: "\<forall>b\<in>set ?I. valid_index (batchSize B) b"
      unfolding batchSize_def by (rule identity_valid)
    from index_list_result [OF valid flat] obtain B' where
      idx: "indexInternal B ((!) ?I) (int (length ?I)) = Inr B'"
      and e: "?I = [] \<longrightarrow> B' = GridBatchImpl_new (device B) (isMutable B)"
      and c: "?I \<noteq> [] \<longrightarrow>
         mIsContiguous (mBatchMetadata B') =
           (mIsContiguous (mBatchMetadata B) \<and>
            map (resolved_index (batchSize B)) ?I = map int [0..<length ?I] \<and>
            int (length ?I) = batchSize B)"
      by blast
    have idx': "indexInternal B ((!) ?I) (batchSize B) = Inr B'"
      using idx by (simp add: batchSize_def)
    have "isContiguous B' \<longleftrightarrow> isContiguous B \<or> batchSize B = 0"
    proof (cases "?N = 0")
      case True
      with e show ?thesis
        by (simp add: isContiguous_def batchSize_def GridBatchImpl_new_def
            GridBatchMetadata_default_def)
    next
      case False
      have r: "(map (resolved_index (batchSize B)) ?I = map int [0..<length ?I]) = True"
        by (simp add: resolved_index_def)
      from False c show ?thesis
        unfolding r by (simp add: isContiguous_def batchSize_def)
    qed
    with idx' show ?thesis by blast
  qed
  have b: "\<exists>B'. indexInternal B ((!) L) (int (length L)) = Inr B' \<and> \<not> isContiguous B'"
    if ne: "L \<noteq> []" and v: "\<forall>b\<in>set L. - batchSize B \<le> b \<and> b < batchSize B"
      and d: "map (\<lambda>b. if b < 0 then batchSize B + b else b) L \<noteq> ?I" for L
  proof -
    have valid: "\<forall>b\<in>set L. valid_index (batchSize B) b"
      using v by (simp add: valid_index_iff)
    from index_list_result [OF valid flat] ne obtain B' where
      idx: "indexInternal B ((!) L) (int (length L)) = Inr B'"
      and c: "mIsContiguous (mBatchMetadata B') =
           (mIsContiguous (mBatchMetadata B) \<and>
            map (resolved_index (batchSize B)) L = map int [0..<length L] \<and>
            int (length L) = batchSize B)"
      by blast
    have r: "map (resolved_index (batchSize B)) L =
        map (\<lambda>b. if b < 0 then batchSize B + b else b) L"
      by (simp add: resolved_index_def)
    have "\<not> isContiguous B'"
    proof
      assume "isContiguous B'"
      with c have m: "map (resolved_index (batchSize B)) L = map int [0..<length L]"
        and l: "int (length L) = batchSize B"
        by (simp_all add: isContiguous_def)
      from l have "length L = ?N" by (simp add: batchSize_def)
      with m have "map (resolved_index (batchSize B)) L = ?I" by simp
      then have "map (\<lambda>b. if b < 0 then batchSize B + b else b) L = ?I"
        by (simp only: r)
      with d show False by simp
    qed
    with idx show ?thesis by blast
  qed
  from a b show ?thesis by blast
qed

text \<open>
  The example batch, which is contiguous: the identity list keeps the flag, a
  permutation and a list with a gap clear it.
\<close>

theorem C3_contiguity_witness:
  "(\<exists>B'. indexInternal ex_batch ((!) [0, 1, 2]) 3 = Inr B' \<and> isContiguous B') \<and>
   (\<exists>B'. indexInternal ex_batch ((!) [2, 0, 1]) 3 = Inr B' \<and> \<not> isContiguous B') \<and>
   (\<exists>B'. indexInternal ex_batch ((!) [0, 2]) 2 = Inr B' \<and> \<not> isContiguous B')"
proof -
  have flat: "mListIndices ex_batch = []" by (simp add: ex_batch_flags)
  have n: "length (mHostGridMetadata ex_batch) = 3"
    using ex_batch_size(1) by (simp add: batchSize_def)
  have upt: "[0..<3] = [0, 1, 2]" by (simp add: upt_rec)
  note inst = C3_contiguity [OF flat]
  from inst [THEN conjunct1]
  have a: "\<exists>B'. indexInternal ex_batch ((!) [0, 1, 2]) 3 = Inr B' \<and> isContiguous B'"
    by (simp add: n upt ex_batch_size ex_batch_flags)
  from inst [THEN conjunct2, rule_format, of "[2, 0, 1]"]
  have b: "\<exists>B'. indexInternal ex_batch ((!) [2, 0, 1]) 3 = Inr B' \<and> \<not> isContiguous B'"
    by (simp add: n upt ex_batch_size)
  from inst [THEN conjunct2, rule_format, of "[0, 2]"]
  have c: "\<exists>B'. indexInternal ex_batch ((!) [0, 2]) 2 = Inr B' \<and> \<not> isContiguous B'"
    by (simp add: n upt ex_batch_size)
  from a b c show ?thesis by blast
qed

text \<open>
  The claim as stated, for every batch, fails on a batch that carries list indices:
  indexing it with the identity list raises an error and yields no batch.
\<close>

theorem C3_counterexample:
  "mListIndices ex_nested \<noteq> [] \<and> batchSize ex_nested = 3 \<and>
   indexInternal ex_nested ((!) [0, 1, 2]) 3 =
     Inl (Error ''Nested lists of GridBatches are not supported yet'')"
proof -
  have upt: "[0..<3] = [0, 1, 2]" by (simp add: upt_rec)
  have v: "\<forall>b\<in>set (map ((!) [0, 1, 2]) [0..<nat 3]). valid_index (batchSize ex_nested) b"
    by (simp add: valid_index_def resolved_index_def ex_batch_size upt)
  have "indexInternal ex_nested ((!) [0, 1, 2]) 3 =
      index_finish ex_nested
        (index_run ex_nested (map ((!) [0, 1, 2]) [0..<nat 3]) (index_start ex_nested))"
    using v by (intro indexInternal_pos) simp_all
  then show ?thesis
    by (simp add: index_finish_nested ex_batch_flags ex_batch_size)
qed

subsection \<open>C4\<close>




subsection \<open>C5\<close>

text \<open>
  Claim C5. Let \<open>n\<close> be the batch size and \<open>r\<close> the resolved index, \<open>n + bi\<close> for a
  negative \<open>bi\<close> and \<open>bi\<close> otherwise. When \<open>r\<close> lies in \<open>[0, n)\<close> every query of
  the engine on one element reads element \<open>r\<close>. When it does not, every query fails with the index
  error of the range check, with one exception: \<open>bbox\<close> checks for empty storage
  before it checks the index, and on a batch with empty storage it fails with the
  generic error "Empty grid". The queries are pure functions of the batch, so a failing
  query has no other effect.
\<close>

theorem C5_index_resolution:
  fixes B :: GridBatchImpl and bi :: int
  defines "n \<equiv> batchSize B"
  defines "r \<equiv> (if bi < 0 then n + bi else bi)"
  defines "ms \<equiv> mHostGridMetadata B"
  shows "(0 \<le> r \<and> r < n \<longrightarrow>
           negativeToPositiveIndexWithRangecheck B bi = Inr r \<and>
           numLeaves B bi = Inr (mNumLeaves (ms ! nat r)) \<and>
           numVoxels B bi = Inr (mNumVoxels (ms ! nat r)) \<and>
           cumVoxels B bi = Inr (mCumVoxels (ms ! nat r)) \<and>
           numBytes B bi = Inr (mNumBytes (ms ! nat r)) \<and>
           cumBytes B bi = Inr (mCumBytes (ms ! nat r)) \<and>
           primalTransform B bi = Inr (mPrimalTransform (ms ! nat r)) \<and>
           dualTransform B bi = Inr (mDualTransform (ms ! nat r)) \<and>
           voxelSize B bi = Inr (mVoxelSize (ms ! nat r)) \<and>
           voxelOrigin B bi = Inr (meta_voxelOrigin (ms ! nat r)) \<and>
           bbox B bi = (if isEmpty B then Inl (Error ''Empty grid'') else Inr (mBBox (ms ! nat r))) \<and>
           dualBbox B bi =
             (if isEmpty B then Inl (Error ''Empty grid'')
              else Inr ((mBBox (ms ! nat r))
                     \<lparr>mCoord1 := Coord_plus (mCoord1 (mBBox (ms ! nat r))) (1, 1, 1)\<rparr>))) \<and>
         (\<not> (0 \<le> r \<and> r < n) \<longrightarrow>
           negativeToPositiveIndexWithRangecheck B bi = Inl (IndexError r n) \<and>
           numLeaves B bi = Inl (IndexError r n) \<and>
           numVoxels B bi = Inl (IndexError r n) \<and>
           cumVoxels B bi = Inl (IndexError r n) \<and>
           numBytes B bi = Inl (IndexError r n) \<and>
           cumBytes B bi = Inl (IndexError r n) \<and>
           primalTransform B bi = Inl (IndexError r n) \<and>
           dualTransform B bi = Inl (IndexError r n) \<and>
           voxelSize B bi = Inl (IndexError r n) \<and>
           voxelOrigin B bi = Inl (IndexError r n) \<and>
           dualBbox B bi = Inl (IndexError r n) \<and>
           bbox B bi = Inl (if isEmpty B then Error ''Empty grid'' else IndexError r n))"
proof -
  have r: "r = resolved_index n bi" by (simp add: r_def resolved_index_def)
  show ?thesis
  proof (cases "valid_index (batchSize B) bi")
    case True
    then have "0 \<le> r \<and> r < n" by (simp add: valid_index_def r n_def)
    with True show ?thesis
      by (simp add: r n_def ms_def rangecheck_valid numLeaves_def numVoxels_def cumVoxels_def
          numBytes_def cumBytes_def primalTransform_def dualTransform_def voxelSize_def
          voxelOrigin_def bbox_def dualBbox_def checkNonEmptyGrid_def valid_resolved
          resolved_idem)
  next
    case False
    then have "\<not> (0 \<le> r \<and> r < n)" by (simp add: valid_index_def r n_def)
    with False show ?thesis
      by (simp add: r n_def rangecheck_invalid numLeaves_def numVoxels_def cumVoxels_def
          numBytes_def cumBytes_def primalTransform_def dualTransform_def voxelSize_def
          voxelOrigin_def dualBbox_def bbox_def checkNonEmptyGrid_def)
  qed
qed

text \<open>
  The example batch of three grids: the index \<open>- 1\<close> reads the last grid, the indices
  \<open>3\<close>, \<open>- 4\<close> and \<open>5\<close> are out of range.
\<close>

theorem C5_index_resolution_witness:
  "numVoxels ex_batch (- 1) = Inr 7 \<and> numVoxels ex_batch 3 = Inl (IndexError 3 3) \<and>
   numVoxels ex_batch (- 4) = Inl (IndexError (- 1) 3) \<and>
   bbox ex_batch 5 = Inl (IndexError 5 3)"
proof -
  have a: "numVoxels ex_batch (- 1) = Inr 7"
    using C5_index_resolution [where B = ex_batch and bi = "- 1"] by (simp add: ex_batch_size) (simp add: ex_unfold)
  have b: "numVoxels ex_batch 3 = Inl (IndexError 3 3) "
    using C5_index_resolution [where B = ex_batch and bi = 3] by (simp add: ex_batch_size)
  have c: "numVoxels ex_batch (- 4) = Inl (IndexError (- 1) 3)"
    using C5_index_resolution [where B = ex_batch and bi = "- 4"] by (simp add: ex_batch_size)
  have d: "bbox ex_batch 5 = Inl (IndexError 5 3)"
    using C5_index_resolution [where B = ex_batch and bi = 5] by (simp add: ex_batch_size ex_batch_flags)
  from a b c d show ?thesis by simp
qed

text \<open>
  The claim as stated, for every query, fails for \<open>bbox\<close> on the empty batch: the index
  \<open>0\<close> is out of range and the error is not an index error.
\<close>

theorem C5_counterexample:
  "batchSize ex_empty = 0 \<and> bbox ex_empty 0 = Inl (Error ''Empty grid'') \<and>
   \<not> spec_index_error (Error ''Empty grid'')"
  by (simp add: bbox_def checkNonEmptyGrid_def ex_batch_size ex_batch_flags)

subsection \<open>C6\<close>

text \<open>
  Claim C6. On a batch of size 0 every query of the engine on one element fails, at
  every index, with an error value and not with an abort: with the index error of the
  range check for every query but \<open>bbox\<close>, and for \<open>bbox\<close> with the generic error
  "Empty grid" when the storage is empty. The total voxel count of a batch of size 0 that was
  produced by construction or by indexing is 0.
\<close>

theorem C6_empty_batch:
  assumes "batchSize B = 0"
  shows "numLeaves B bi = Inl (IndexError bi 0) \<and>
         numVoxels B bi = Inl (IndexError bi 0) \<and>
         cumVoxels B bi = Inl (IndexError bi 0) \<and>
         numBytes B bi = Inl (IndexError bi 0) \<and>
         cumBytes B bi = Inl (IndexError bi 0) \<and>
         primalTransform B bi = Inl (IndexError bi 0) \<and>
         dualTransform B bi = Inl (IndexError bi 0) \<and>
         voxelSize B bi = Inl (IndexError bi 0) \<and>
         voxelOrigin B bi = Inl (IndexError bi 0) \<and>
         dualBbox B bi = Inl (IndexError bi 0) \<and>
         bbox B bi = Inl (if isEmpty B then Error ''Empty grid'' else IndexError bi 0) \<and>
         (produced B \<longrightarrow> totalVoxels B = 0)"
proof -
  have inv: "\<not> valid_index (batchSize B) bi"
    using assms by (simp add: valid_index_def)
  have r: "resolved_index 0 bi = bi" by (simp add: resolved_index_def)
  have "produced B \<longrightarrow> totalVoxels B = 0"
    using assms by (simp add: produced_totalVoxels_empty)
  then show ?thesis
    using assms rangecheck_invalid [OF inv]
    by (simp add: r numLeaves_def numVoxels_def cumVoxels_def numBytes_def cumBytes_def
        primalTransform_def dualTransform_def voxelSize_def voxelOrigin_def dualBbox_def
        bbox_def checkNonEmptyGrid_def)
qed

text \<open>The empty batch.\<close>

theorem C6_empty_batch_witness:
  "numVoxels ex_empty 0 = Inl (IndexError 0 0) \<and>
   numVoxels ex_empty (- 1) = Inl (IndexError (- 1) 0) \<and>
   bbox ex_empty 0 = Inl (Error ''Empty grid'') \<and>
   totalVoxels ex_empty = 0"
proof -
  have h: "batchSize ex_empty = 0" by (simp add: ex_batch_size)
  have p: "produced ex_empty"
    using produced.by_new [of "Device kCPU (- 1)" False] by (simp add: ex_empty_new)
  from C6_empty_batch [OF h, of 0] C6_empty_batch [OF h, of "- 1"] p
  show ?thesis by (simp add: ex_batch_flags)
qed

text \<open>
  The claim as stated asks for an error of the invalid-argument class from every query:
  the voxel count query on the empty batch fails with an index error instead.
\<close>

theorem C6_counterexample:
  "batchSize ex_empty = 0 \<and> numVoxels ex_empty 0 = Inl (IndexError 0 0) \<and>
   \<not> spec_invalid_argument_error (IndexError 0 0)"
  by (simp add: numVoxels_def negativeToPositiveIndexWithRangecheck_def ex_batch_size)

subsection \<open>C7\<close>



subsection \<open>C8\<close>

text \<open>
  Claim C8. \<open>setDevice\<close> with the device the buffer is on returns the buffer as it
  is. On an empty buffer, one whose two data pointers are null, \<open>setDevice\<close> changes
  the recorded device and nothing else, and allocates nothing; when the target is a
  CUDA device without an index it raises an error instead and changes nothing at all.
  A buffer constructed with size 0 and a cleared buffer are empty in this sense and
  have size 0.
\<close>

theorem C8_setDevice_frame:
  "(toDevice = mDevice b \<longrightarrow> setDevice toDevice blocking b = Inr b) \<and>
   (mCpuData b = None \<and> mGpuData b = None \<longrightarrow>
      setDevice toDevice blocking b =
        (if toDevice \<noteq> mDevice b \<and> is_cuda toDevice \<and> \<not> has_index toDevice
         then Inl (Error ''Invalid CUDA device must specify device index'')
         else Inr (b\<lparr>mDevice := toDevice\<rparr>))) \<and>
   (\<forall>b0. TorchDeviceBuffer_new fresh 0 data host deviceIndex = Inr b0 \<longrightarrow>
      mSize b0 = 0 \<and> mCpuData b0 = None \<and> mGpuData b0 = None) \<and>
   mSize (clear b) = 0 \<and> mCpuData (clear b) = None \<and> mGpuData (clear b) = None"
  using new_zero_sized [of fresh data host deviceIndex]
  by (auto simp add: setDevice_def clear_def)

text \<open>
  The buffer of the example batch moved to the host, where it is, and the buffer of the
  empty batch moved to CUDA device 1 and to a CUDA device without an index.
\<close>

theorem C8_setDevice_frame_witness:
  "setDevice (Device kCPU (- 1)) True (buffer ex_handle) = Inr (buffer ex_handle) \<and>
   setDevice (Device kCUDA 1) False (buffer (mGridHdl ex_empty)) =
     Inr \<lparr>mSize = 0, mCpuData = None, mGpuData = None, mDevice = Device kCUDA 1\<rparr> \<and>
   setDevice (Device kCUDA (- 1)) False (buffer (mGridHdl ex_empty)) =
     Inl (Error ''Invalid CUDA device must specify device index'')"
proof -
  have same: "Device kCPU (- 1) = mDevice (buffer ex_handle)" by (simp add: ex_handle_def)
  have empty: "mCpuData (buffer (mGridHdl ex_empty)) = None \<and>
      mGpuData (buffer (mGridHdl ex_empty)) = None"
    by (simp add: ex_empty_def)
  from C8_setDevice_frame [of "Device kCPU (- 1)" "buffer ex_handle" True] same
  have a: "setDevice (Device kCPU (- 1)) True (buffer ex_handle) = Inr (buffer ex_handle)"
    by simp
  from C8_setDevice_frame [of "Device kCUDA 1" "buffer (mGridHdl ex_empty)" False] empty
  have b: "setDevice (Device kCUDA 1) False (buffer (mGridHdl ex_empty)) =
     Inr \<lparr>mSize = 0, mCpuData = None, mGpuData = None, mDevice = Device kCUDA 1\<rparr>"
    by (simp add: ex_empty_def)
  from C8_setDevice_frame [of "Device kCUDA (- 1)" "buffer (mGridHdl ex_empty)" False] empty
  have c: "setDevice (Device kCUDA (- 1)) False (buffer (mGridHdl ex_empty)) =
     Inl (Error ''Invalid CUDA device must specify device index'')"
    by (simp add: ex_empty_def)
  from a b c show ?thesis by simp
qed

subsection \<open>C9\<close>

text \<open>
  Claim C9. For an index in range, the dual bounding box query of the engine returns
  what the bounding box query returns, with the same minimum corner and with
  \<open>(1, 1, 1)\<close> added to the maximum corner, and the bounding box query returns the
  element's box whenever the storage is not empty; the same relation holds between the
  two queries of the accessor. Adding \<open>(1, 1, 1)\<close> adds 1 to each coordinate, in
  32-bit arithmetic, which is the integer successor below the largest coordinate.
\<close>

theorem C9_dual_bbox:
  "(- batchSize B \<le> bi \<and> bi < batchSize B \<longrightarrow>
      dualBbox B bi =
        (case bbox B bi of
           Inl e \<Rightarrow> Inl e
         | Inr bb \<Rightarrow> Inr \<lparr>mCoord0 = mCoord0 bb, mCoord1 = Coord_plus (mCoord1 bb) (1, 1, 1)\<rparr>) \<and>
      (\<not> isEmpty B \<longrightarrow>
         bbox B bi =
           Inr (mBBox (mHostGridMetadata B ! nat (if bi < 0 then batchSize B + bi else bi))))) \<and>
   (- mGridCount A \<le> bi \<and> bi < mGridCount A \<longrightarrow>
      Accessor_dualBbox A bi =
        (case Accessor_bbox A bi of
           Inl e \<Rightarrow> Inl e
         | Inr bb \<Rightarrow> Inr \<lparr>mCoord0 = mCoord0 bb, mCoord1 = Coord_plus (mCoord1 bb) (1, 1, 1)\<rparr>)) \<and>
   Coord_plus (x, y, z) (1, 1, 1) = (x + 1, y + 1, z + 1) \<and>
   (sint x < 2147483647 \<longrightarrow> sint (x + 1) = sint x + 1)"
proof -
  have engine: "dualBbox B bi =
        (case bbox B bi of
           Inl e \<Rightarrow> Inl e
         | Inr bb \<Rightarrow> Inr \<lparr>mCoord0 = mCoord0 bb, mCoord1 = Coord_plus (mCoord1 bb) (1, 1, 1)\<rparr>)"
    if "valid_index (batchSize B) bi"
    using that
    by (simp add: dualBbox_def rangecheck_valid bbox_valid valid_resolved resolved_idem)
  have engine_bbox: "bbox B bi =
      Inr (mBBox (mHostGridMetadata B ! nat (if bi < 0 then batchSize B + bi else bi)))"
    if "valid_index (batchSize B) bi" "\<not> isEmpty B"
    using that by (simp add: bbox_valid resolved_index_def)
  have acc: "Accessor_dualBbox A bi =
        (case Accessor_bbox A bi of
           Inl e \<Rightarrow> Inl e
         | Inr bb \<Rightarrow> Inr \<lparr>mCoord0 = mCoord0 bb, mCoord1 = Coord_plus (mCoord1 bb) (1, 1, 1)\<rparr>)"
    if "valid_index (mGridCount A) bi"
    using that
    by (simp add: Accessor_dualBbox_def Accessor_bbox_def Accessor_grid_def acc_rangecheck_eq
        valid_resolved resolved_idem split: sum.splits)
  have one: "sint (x + 1) = sint x + 1" if "sint x < 2147483647"
    using that sint_plus_one [of x] by simp
  show ?thesis
    using engine engine_bbox acc one
    by (simp add: valid_index_iff Coord_plus_one)
qed

text \<open>
  The second and the last grid of the example batch, on the engine, and the second grid
  through the host accessor.
\<close>

theorem C9_dual_bbox_witness:
  "dualBbox ex_batch 1 = Inr \<lparr>mCoord0 = (5, 5, 5), mCoord1 = (7, 7, 7)\<rparr> \<and>
   dualBbox ex_batch (- 1) = Inr \<lparr>mCoord0 = (- 4, 0, 1), mCoord1 = (0, 4, 10)\<rparr> \<and>
   (case hostAccessor ex_batch of
      Inl e \<Rightarrow> False
    | Inr A \<Rightarrow> Accessor_dualBbox A 1 = Inr \<lparr>mCoord0 = (5, 5, 5), mCoord1 = (7, 7, 7)\<rparr>)"
proof -
  have r1: "- batchSize ex_batch \<le> 1 \<and> 1 < batchSize ex_batch" by (simp add: ex_batch_size)
  have r2: "- batchSize ex_batch \<le> - 1 \<and> - 1 < batchSize ex_batch" by (simp add: ex_batch_size)
  have b1: "bbox ex_batch 1 = Inr ex_box1"
    by (simp add: bbox_def checkNonEmptyGrid_def negativeToPositiveIndexWithRangecheck_def
        ex_unfold)
  have b2: "bbox ex_batch (- 1) = Inr ex_box2"
    by (simp add: bbox_def checkNonEmptyGrid_def negativeToPositiveIndexWithRangecheck_def
        ex_unfold)
  from C9_dual_bbox [where B = ex_batch and bi = 1] r1 b1
  have a: "dualBbox ex_batch 1 = Inr \<lparr>mCoord0 = (5, 5, 5), mCoord1 = (7, 7, 7)\<rparr>"
    by (simp add: ex_box1_def Coord_plus_def)
  from C9_dual_bbox [where B = ex_batch and bi = "- 1"] r2 b2
  have b: "dualBbox ex_batch (- 1) = Inr \<lparr>mCoord0 = (- 4, 0, 1), mCoord1 = (0, 4, 10)\<rparr>"
    by (simp add: ex_box2_def Coord_plus_def)
  obtain A where A: "hostAccessor ex_batch = Inr A" and n: "mGridCount A = 3"
    and bb: "Accessor_bbox A 1 = Inr ex_box1"
    by (simp add: hostAccessor_def Accessor_bbox_def Accessor_grid_def Accessor_metadata_def
        Accessor_negativeToPositiveIndexWithRangecheck_def Accessor_batchSize_def ex_unfold
        ex_grids_def)
  from C9_dual_bbox [where A = A and bi = 1] n bb
  have "Accessor_dualBbox A 1 = Inr \<lparr>mCoord0 = (5, 5, 5), mCoord1 = (7, 7, 7)\<rparr>"
    by (simp add: ex_box1_def Coord_plus_def)
  with A a b show ?thesis by simp
qed

subsection \<open>C10\<close>

text \<open>
  Claim C10. On a batch that is not mutable, the count of enabled voxels of one
  element is its voxel count, for every index, and the tensors of enabled counts and of
  cumulative enabled counts are those of the plain counts, whatever the kernel that
  counts enabled voxels computes.
\<close>

theorem C10_enabled_counts_immutable:
  assumes "\<not> is_mutable G"
  shows "num_enabled_voxels_at countEnabled G bi = num_voxels_at G bi \<and>
         num_enabled_voxels countEnabled G = num_voxels G \<and>
         cum_enabled_voxels countEnabled G = cum_voxels G"
  using assms
  by (simp add: num_enabled_voxels_at_def num_enabled_voxels_def cum_enabled_voxels_def)

text \<open>The example batch, which is not mutable.\<close>

theorem C10_enabled_counts_immutable_witness:
  "num_enabled_voxels_at ex_countEnabled \<lparr>mImpl = ex_batch\<rparr> 1 = Inr 5 \<and>
   num_enabled_voxels ex_countEnabled \<lparr>mImpl = ex_batch\<rparr> =
     Inr \<lparr>t_data = [10, 5, 7], t_device = Device kCPU (- 1)\<rparr>"
proof -
  have h: "\<not> is_mutable \<lparr>mImpl = ex_batch\<rparr>"
    by (simp add: is_mutable_def impl_def ex_batch_flags)
  have v: "num_voxels_at \<lparr>mImpl = ex_batch\<rparr> 1 = Inr 5"
    by (simp add: num_voxels_at_def impl_def ex_batch_numVoxels)
  have upt: "[0..<3] = [0, 1, 2]" by (simp add: upt_rec)
  have t: "num_voxels \<lparr>mImpl = ex_batch\<rparr> =
     Inr \<lparr>t_data = [10, 5, 7], t_device = Device kCPU (- 1)\<rparr>"
    by (simp add: num_voxels_def fill_tensor_def grid_count_def num_voxels_at_def impl_def
        ex_batch_size ex_batch_numVoxels ex_batch_flags upt)
  from C10_enabled_counts_immutable [OF h, of ex_countEnabled 1] v t
  show ?thesis by simp
qed

end
